theory Spec2Isabelle
  imports Complex_Main "HOL-Library.AList" "HOL-Library.Sublist"
begin

section \<open>Period lookback (marketDataService.js, getPeriodInDays)\<close>

text \<open>
  \<^verbatim>\<open>periodMap[period] || 365\<close> reads a property of an object literal. A JavaScript
  property read looks at the object's own properties first and then at its prototype,
  which for an object literal is \<^verbatim>\<open>Object.prototype\<close>. The result of the read is
  therefore either a number of the literal, or a member inherited from the prototype
  (a function, or for \<^verbatim>\<open>__proto__\<close> the prototype object itself), or undefined.
\<close>

datatype js_value = JNumber int | JInherited string

definition periodMap :: "(string \<times> int) list" where
  "periodMap =
     [(''1d'', 1), (''5d'', 5), (''1mo'', 30), (''3mo'', 90), (''6mo'', 180),
      (''1y'', 365), (''2y'', 730), (''5y'', 1825), (''10y'', 3650),
      (''ytd'', 365), (''max'', 3650)]"

definition object_prototype_members :: "string list" where
  "object_prototype_members =
     [''constructor'', ''__defineGetter__'', ''__defineSetter__'', ''hasOwnProperty'',
      ''__lookupGetter__'', ''__lookupSetter__'', ''isPrototypeOf'',
      ''propertyIsEnumerable'', ''toString'', ''valueOf'', ''__proto__'',
      ''toLocaleString'']"

definition js_get :: "(string \<times> int) list \<Rightarrow> string \<Rightarrow> js_value option" where
  "js_get obj k =
     (case map_of obj k of
        Some n \<Rightarrow> Some (JNumber n)
      | None \<Rightarrow> if k \<in> set object_prototype_members then Some (JInherited k) else None)"

fun js_truthy :: "js_value \<Rightarrow> bool" where
  "js_truthy (JNumber n) = (n \<noteq> 0)"
| "js_truthy (JInherited _) = True"

definition getPeriodInDays :: "string \<Rightarrow> js_value" where
  "getPeriodInDays period =
     (case js_get periodMap period of
        Some v \<Rightarrow> if js_truthy v then v else JNumber 365
      | None \<Rightarrow> JNumber 365)"


section \<open>Data model\<close>

text \<open>A thrown JavaScript \<^verbatim>\<open>Error\<close>, with its message.\<close>

datatype exn = Error string

subsection \<open>Tokens and passwords\<close>

text \<open>
  JSON Web Tokens are modelled symbolically: a token made by \<^verbatim>\<open>jwt.sign\<close> records
  the secret it was signed with, its claims \<^verbatim>\<open>{userId, sessionId}\<close> and the instant
  (in seconds) at which it expires; every other string is opaque. The empty string is
  \<open>Opaque []\<close>. \<^verbatim>\<open>jwt.verify\<close> throws unless the token was signed with the given
  secret and has not expired.
\<close>

datatype token =
    Signed (t_secret: string) (t_userId: string) (t_sessionId: string) (t_exp: nat)
  | Opaque string

record claims =
  c_userId :: string
  c_sessionId :: string

definition jwt_sign :: "string \<Rightarrow> string \<Rightarrow> nat \<Rightarrow> nat \<Rightarrow> string \<Rightarrow> token" where
  "jwt_sign userId sessionId now expiresIn secret = Signed secret userId sessionId (now + expiresIn)"

fun jwt_verify :: "token \<Rightarrow> string \<Rightarrow> nat \<Rightarrow> exn + claims" where
  "jwt_verify (Signed k u s e) secret now =
     (if k \<noteq> secret then Inl (Error ''invalid signature'')
      else if e \<le> now then Inl (Error ''jwt expired'')
      else Inr \<lparr>c_userId = u, c_sessionId = s\<rparr>)"
| "jwt_verify (Opaque _) secret now = Inl (Error ''jwt malformed'')"

text \<open>
  A bcrypt hash, symbolically: the cost factor and the password it was made from.
  \<^verbatim>\<open>bcrypt.compare\<close> answers whether the hash was made from the given password.
\<close>

datatype pwhash = Bcrypt nat string

definition bcrypt_hash :: "string \<Rightarrow> nat \<Rightarrow> pwhash" where
  "bcrypt_hash password saltRounds = Bcrypt saltRounds password"

fun bcrypt_compare :: "string \<Rightarrow> pwhash \<Rightarrow> bool" where
  "bcrypt_compare password (Bcrypt _ p) = (password = p)"

record config =
  JWT_SECRET :: string
  JWT_REFRESH_SECRET :: string

subsection \<open>Rows of the durable store\<close>

text \<open>
  A JavaScript number as \<^verbatim>\<open>parseFloat\<close> and \<^verbatim>\<open>parseInt\<close> return it: a finite number,
  NaN, or an infinity.
\<close>

datatype jsnum = Num rat | NaN | PlusInfinity | MinusInfinity

record user_row =
  u_id :: string
  u_email :: string
  u_password_hash :: pwhash
  u_first_name :: string
  u_last_name :: string
  u_is_active :: bool
  u_created_at :: nat

record refresh_row =
  rt_user_id :: string
  rt_token :: string
  rt_expires_at :: nat

record stock_row =
  st_company_name :: "string option"
  st_sector :: "string option"
  st_industry :: "string option"
  st_market_cap :: "int option"
  st_created_at :: nat
  st_updated_at :: nat

record price_row =
  p_open :: jsnum
  p_high :: jsnum
  p_low :: jsnum
  p_close :: jsnum
  p_volume :: int

text \<open>
  The two tables that \<^verbatim>\<open>storeStockData\<close> writes: \<^verbatim>\<open>stocks\<close> with primary key
  \<^verbatim>\<open>symbol\<close>, \<^verbatim>\<open>stock_prices\<close> with primary key \<^verbatim>\<open>(time, symbol)\<close>.
\<close>

record market_tables =
  stocks :: "string \<rightharpoonup> stock_row"
  stock_prices :: "nat \<times> string \<rightharpoonup> price_row"

subsection \<open>Values held in the cache store\<close>

record session =
  s_userId :: string
  s_email :: string
  s_firstName :: "string option"
  s_lastName :: "string option"

record bar =
  b_time :: "nat option"
  b_open :: jsnum
  b_high :: jsnum
  b_low :: jsnum
  b_close :: jsnum
  b_volume :: jsnum

record quote =
  q_symbol :: "string option"
  q_price :: "rat option"
  q_change :: "rat option"
  q_changePercent :: "rat option"
  q_volume :: "rat option"
  q_marketCap :: "rat option"
  q_high :: "rat option"
  q_low :: "rat option"
  q_open :: "rat option"
  q_previousClose :: "rat option"
  q_timestamp :: nat

record company_info =
  ci_symbol :: "string option"
  ci_name :: "string option"
  ci_sector :: "string option"
  ci_industry :: "string option"
  ci_marketCap :: "rat option"
  ci_employees :: "rat option"
  ci_website :: "string option"
  ci_description :: "string option"
  ci_country :: "string option"
  ci_currency :: "string option"
  ci_exchange :: "string option"
  ci_timestamp :: nat

datatype sector_entry =
    SectorQuote (se_etf: string) (se_name: string) (se_price: "rat option")
      (se_change: "rat option") (se_changePercent: "rat option")
  | SectorError string

text \<open>
  The cache store holds strings; the helpers write \<^verbatim>\<open>JSON.stringify(value)\<close> and read
  back \<^verbatim>\<open>JSON.parse(value)\<close>. A stored value is modelled by the JSON value it parses
  to: one of the shapes the program writes, or the integer counter that \<^verbatim>\<open>INCR\<close>
  maintains.
\<close>

datatype rval =
    RSession session
  | RCounter int
  | RBars "bar list"
  | RQuote quote
  | RCompany company_info
  | RSectors "(string \<times> sector_entry) list"

text \<open>JavaScript truthiness of a parsed value: objects and arrays are truthy, 0 is not.\<close>

fun truthy :: "rval \<Rightarrow> bool" where
  "truthy (RCounter n) = (n \<noteq> 0)"
| "truthy _ = True"

record rentry =
  rvalue :: rval
  rexpires :: "nat option"

subsection \<open>The world a request runs in\<close>

text \<open>
  \<open>redis_client\<close> and \<open>db_pool\<close> say whether the module-level \<^verbatim>\<open>client\<close> and
  \<^verbatim>\<open>pool\<close> are set (the server starts without them when the connection fails at
  startup). \<open>faults\<close> is the schedule of failures of the calls into the redis and pg
  libraries: each such call takes the head of the list, and rejects when it is
  \<open>True\<close>; the empty list means that no further call fails. \<open>password_compares\<close>
  counts the calls of \<^verbatim>\<open>bcrypt.compare\<close>. \<open>pooled_txn\<close> is the state in which the
  pooled database client lies in the pool: the working copy of the transaction it was
  released with, or \<open>None\<close> when it was released with no transaction open. Requests
  run one after the other, and the pool hands out again the client that was released
  last, as it was released. Time is in seconds.
\<close>

record world =
  redis_client :: bool
  db_pool :: bool
  faults :: "bool list"
  redis :: "string \<rightharpoonup> rentry"
  users :: "user_row list"
  refresh_tokens :: "refresh_row list"
  tables :: market_tables
  password_compares :: nat
  pooled_txn :: "market_tables option"

definition io_call :: "world \<Rightarrow> bool \<times> world" where
  "io_call w = (case faults w of [] \<Rightarrow> (False, w) | f # fs \<Rightarrow> (f, w\<lparr>faults := fs\<rparr>))"

section \<open>Cache store helpers (config/redis.js)\<close>

definition getClient :: "world \<Rightarrow> exn + unit" where
  "getClient w =
     (if redis_client w then Inr ()
      else Inl (Error ''Redis not connected. Call connectRedis() first.''))"

text \<open>A key is present at instant \<open>now\<close> when it is stored and its expiry has not passed.\<close>

definition redis_lookup :: "nat \<Rightarrow> world \<Rightarrow> string \<Rightarrow> rentry option" where
  "redis_lookup now w key =
     (case redis w key of
        None \<Rightarrow> None
      | Some e \<Rightarrow> (case rexpires e of
                     None \<Rightarrow> Some e
                   | Some t \<Rightarrow> if now < t then Some e else None))"

text \<open>The redis commands the helpers use: GET, SETEX, DEL, INCR, EXPIRE.\<close>

definition redis_GET :: "nat \<Rightarrow> string \<Rightarrow> world \<Rightarrow> (exn + rval option) \<times> world" where
  "redis_GET now key w =
     (case io_call w of
        (True, w') \<Rightarrow> (Inl (Error ''redis: GET failed''), w')
      | (False, w') \<Rightarrow> (Inr (map_option rvalue (redis_lookup now w' key)), w'))"

definition redis_SETEX :: "nat \<Rightarrow> string \<Rightarrow> nat \<Rightarrow> rval \<Rightarrow> world \<Rightarrow> (exn + unit) \<times> world" where
  "redis_SETEX now key ttl v w =
     (case io_call w of
        (True, w') \<Rightarrow> (Inl (Error ''redis: SETEX failed''), w')
      | (False, w') \<Rightarrow>
          (Inr (), w'\<lparr>redis := (redis w')(key \<mapsto> \<lparr>rvalue = v, rexpires = Some (now + ttl)\<rparr>)\<rparr>))"

definition redis_DEL :: "string \<Rightarrow> world \<Rightarrow> (exn + unit) \<times> world" where
  "redis_DEL key w =
     (case io_call w of
        (True, w') \<Rightarrow> (Inl (Error ''redis: DEL failed''), w')
      | (False, w') \<Rightarrow> (Inr (), w'\<lparr>redis := (redis w')(key := None)\<rparr>))"

definition redis_INCR :: "nat \<Rightarrow> string \<Rightarrow> world \<Rightarrow> (exn + int) \<times> world" where
  "redis_INCR now key w =
     (case io_call w of
        (True, w') \<Rightarrow> (Inl (Error ''redis: INCR failed''), w')
      | (False, w') \<Rightarrow>
          (case redis_lookup now w' key of
             None \<Rightarrow>
               (Inr 1, w'\<lparr>redis := (redis w')(key \<mapsto> \<lparr>rvalue = RCounter 1, rexpires = None\<rparr>)\<rparr>)
           | Some e \<Rightarrow>
               (case rvalue e of
                  RCounter n \<Rightarrow>
                    (Inr (n + 1), w'\<lparr>redis := (redis w')(key \<mapsto> e\<lparr>rvalue := RCounter (n + 1)\<rparr>)\<rparr>)
                | _ \<Rightarrow> (Inl (Error ''ERR value is not an integer or out of range''), w'))))"

definition redis_EXPIRE :: "nat \<Rightarrow> string \<Rightarrow> nat \<Rightarrow> world \<Rightarrow> (exn + unit) \<times> world" where
  "redis_EXPIRE now key seconds w =
     (case io_call w of
        (True, w') \<Rightarrow> (Inl (Error ''redis: EXPIRE failed''), w')
      | (False, w') \<Rightarrow>
          (case redis_lookup now w' key of
             None \<Rightarrow> (Inr (), w')
           | Some e \<Rightarrow>
               (Inr (), w'\<lparr>redis := (redis w')(key \<mapsto> e\<lparr>rexpires := Some (now + seconds)\<rparr>)\<rparr>)))"

text \<open>\<^verbatim>\<open>setCache\<close>, \<^verbatim>\<open>getCache\<close> and \<^verbatim>\<open>deleteCache\<close> catch every error and log it.\<close>

definition setCache :: "nat \<Rightarrow> string \<Rightarrow> rval \<Rightarrow> nat \<Rightarrow> world \<Rightarrow> world" where
  "setCache now key v ttl w =
     (case getClient w of
        Inl e \<Rightarrow> w
      | Inr _ \<Rightarrow> snd (redis_SETEX now key ttl v w))"

definition getCache :: "nat \<Rightarrow> string \<Rightarrow> world \<Rightarrow> rval option \<times> world" where
  "getCache now key w =
     (case getClient w of
        Inl e \<Rightarrow> (None, w)
      | Inr _ \<Rightarrow>
          (case redis_GET now key w of
             (Inl e, w') \<Rightarrow> (None, w')
           | (Inr v, w') \<Rightarrow> (v, w')))"

definition deleteCache :: "string \<Rightarrow> world \<Rightarrow> world" where
  "deleteCache key w =
     (case getClient w of
        Inl e \<Rightarrow> w
      | Inr _ \<Rightarrow> snd (redis_DEL key w))"

definition setSession :: "nat \<Rightarrow> string \<Rightarrow> session \<Rightarrow> world \<Rightarrow> world" where
  "setSession now sessionId userData w =
     setCache now (''session:'' @ sessionId) (RSession userData) 86400 w"

definition getSession :: "nat \<Rightarrow> string \<Rightarrow> world \<Rightarrow> rval option \<times> world" where
  "getSession now sessionId w = getCache now (''session:'' @ sessionId) w"

definition deleteSession :: "string \<Rightarrow> world \<Rightarrow> world" where
  "deleteSession sessionId w = deleteCache (''session:'' @ sessionId) w"

text \<open>
  \<^verbatim>\<open>incrementRateLimit\<close>: INCR, then EXPIRE when the counter was just created; any
  error is caught and the function returns 0.
\<close>

definition incrementRateLimit :: "nat \<Rightarrow> string \<Rightarrow> nat \<Rightarrow> world \<Rightarrow> int \<times> world" where
  "incrementRateLimit now key windowMs w =
     (case getClient w of
        Inl e \<Rightarrow> (0, w)
      | Inr _ \<Rightarrow>
          (case redis_INCR now key w of
             (Inl e, w1) \<Rightarrow> (0, w1)
           | (Inr current, w1) \<Rightarrow>
               if current = 1 then
                 (case getClient w1 of
                    Inl e \<Rightarrow> (0, w1)
                  | Inr _ \<Rightarrow>
                      (case redis_EXPIRE now key (windowMs div 1000) w1 of
                         (Inl e, w2) \<Rightarrow> (0, w2)
                       | (Inr _, w2) \<Rightarrow> (current, w2)))
               else (current, w1)))"

definition setMarketData :: "nat \<Rightarrow> string \<Rightarrow> rval \<Rightarrow> nat \<Rightarrow> world \<Rightarrow> world" where
  "setMarketData now symbol data ttl w = setCache now (''market:'' @ symbol) data ttl w"

definition getMarketData :: "nat \<Rightarrow> string \<Rightarrow> world \<Rightarrow> rval option \<times> world" where
  "getMarketData now symbol w = getCache now (''market:'' @ symbol) w"

section \<open>Durable store helpers (config/database.js)\<close>

text \<open>
  \<^verbatim>\<open>getPool().connect()\<close>: throws when the pool is not set, and is a call into pg that
  may fail.
\<close>

definition pool_connect :: "world \<Rightarrow> (exn + unit) \<times> world" where
  "pool_connect w =
     (if \<not> db_pool w then
        (Inl (Error ''Database not connected. Call connectDatabase() first.''), w)
      else (case io_call w of
              (True, w') \<Rightarrow> (Inl (Error ''pg: connect failed''), w')
            | (False, w') \<Rightarrow> (Inr (), w')))"

text \<open>
  \<^verbatim>\<open>executeQuery\<close> takes a client from the pool, runs one statement on it and releases
  the client. The statement is given by what it does to the world and what it returns;
  it throws when the database rejects it. Its statements read and write \<^verbatim>\<open>users\<close> and
  \<^verbatim>\<open>refresh_tokens\<close>; they are taken to act on these tables at once, also on a client
  that was released with a transaction open (the working copy of a transaction holds the
  market tables only).
\<close>

definition executeQuery :: "(world \<Rightarrow> (exn + 'a) \<times> world) \<Rightarrow> world \<Rightarrow> (exn + 'a) \<times> world" where
  "executeQuery statement w =
     (case pool_connect w of
        (Inl e, w1) \<Rightarrow> (Inl e, w1)
      | (Inr _, w1) \<Rightarrow>
          (case io_call w1 of
             (True, w2) \<Rightarrow> (Inl (Error ''pg: query failed''), w2)
           | (False, w2) \<Rightarrow> statement w2))"

text \<open>The statements of the auth routes and middleware.\<close>

definition select_user_by_id :: "string \<Rightarrow> world \<Rightarrow> (exn + user_row list) \<times> world" where
  \<comment> \<open>\<^verbatim>\<open>SELECT ... FROM users WHERE id = $1\<close>\<close>
  "select_user_by_id uid w = (Inr (filter (\<lambda>u. u_id u = uid) (users w)), w)"

definition select_user_by_email :: "string \<Rightarrow> world \<Rightarrow> (exn + user_row list) \<times> world" where
  \<comment> \<open>\<^verbatim>\<open>SELECT ... FROM users WHERE email = $1\<close>\<close>
  "select_user_by_email email w = (Inr (filter (\<lambda>u. u_email u = email) (users w)), w)"

definition select_refresh_token :: "nat \<Rightarrow> string \<Rightarrow> world \<Rightarrow> (exn + refresh_row list) \<times> world" where
  \<comment> \<open>\<^verbatim>\<open>SELECT user_id, expires_at FROM refresh_tokens WHERE token = $1 AND expires_at > NOW()\<close>\<close>
  "select_refresh_token now tok w =
     (Inr (filter (\<lambda>r. rt_token r = tok \<and> rt_expires_at r > now) (refresh_tokens w)), w)"

definition insert_refresh_token :: "nat \<Rightarrow> string \<Rightarrow> string \<Rightarrow> world \<Rightarrow> (exn + unit) \<times> world" where
  \<comment> \<open>\<^verbatim>\<open>INSERT INTO refresh_tokens (user_id, token, expires_at) VALUES ($1, $2, NOW() + INTERVAL '7 days')\<close>;
      \<^verbatim>\<open>token\<close> is UNIQUE and \<^verbatim>\<open>user_id\<close> references \<^verbatim>\<open>users(id)\<close>\<close>
  "insert_refresh_token now uid tok w =
     (if tok \<in> rt_token ` set (refresh_tokens w) then
        (Inl (Error ''duplicate key value violates unique constraint''), w)
      else if uid \<notin> u_id ` set (users w) then
        (Inl (Error ''insert or update violates foreign key constraint''), w)
      else
        (Inr (), w\<lparr>refresh_tokens := refresh_tokens w @
               [\<lparr>rt_user_id = uid, rt_token = tok, rt_expires_at = now + 7 * 86400\<rparr>]\<rparr>))"

definition delete_refresh_token :: "string \<Rightarrow> string \<Rightarrow> world \<Rightarrow> (exn + unit) \<times> world" where
  \<comment> \<open>\<^verbatim>\<open>DELETE FROM refresh_tokens WHERE user_id = $1 AND token = $2\<close>\<close>
  "delete_refresh_token uid tok w =
     (Inr (), w\<lparr>refresh_tokens :=
            filter (\<lambda>r. \<not> (rt_user_id r = uid \<and> rt_token r = tok)) (refresh_tokens w)\<rparr>)"


section \<open>Requests and responses\<close>

datatype auth_header = NoAuthorization | OtherScheme string | Bearer token

text \<open>
  A field of the JSON body is a string or a value of another type (a number, a boolean,
  an object); the latter is given by its \<^verbatim>\<open>typeof\<close> and by the string express-validator
  reads it as. The email is given by the string the validators read.
\<close>

datatype body_value = StringValue string | OtherValue string string

fun printed :: "body_value \<Rightarrow> string" where
  "printed (StringValue s) = s"
| "printed (OtherValue ty p) = p"

record http_request =
  ip :: string
  authorization :: auth_header
  body_email :: "string option"
  body_password :: "body_value option"
  body_refreshToken :: "token option"

record req_user =
  ru_id :: string
  ru_sessionId :: string
  ru_email :: string
  ru_firstName :: string
  ru_lastName :: string

text \<open>The request object the middleware sees: \<^verbatim>\<open>req.user\<close> is undefined until set.\<close>

record request = http_request +
  user :: "req_user option"

definition incoming :: "http_request \<Rightarrow> request" where
  "incoming h =
     \<lparr>ip = ip h, authorization = authorization h, body_email = body_email h,
      body_password = body_password h, body_refreshToken = body_refreshToken h,
      user = None\<rparr>"

record user_view =
  uv_id :: string
  uv_email :: string
  uv_firstName :: "string option"
  uv_lastName :: "string option"

datatype payload =
    NoData
  | ValidationDetails
  | LoginData user_view token token
  | RefreshData token
  | ProfileData user_view nat

record response =
  status :: nat
  success :: bool
  err :: "string option"
  message :: "string option"
  r_data :: payload
  timestamp :: "nat option"

definition failure :: "nat \<Rightarrow> string \<Rightarrow> string \<Rightarrow> response" where
  "failure code e m =
     \<lparr>status = code, success = False, err = Some e, message = Some m,
      r_data = NoData, timestamp = None\<rparr>"

definition validation_failed :: response where
  "validation_failed =
     \<lparr>status = 400, success = False, err = Some ''Validation failed'',
      message = Some ''Please check your input'', r_data = ValidationDetails, timestamp = None\<rparr>"

datatype outcome = Next request | Respond response

section \<open>Auth middleware (middleware/auth.js)\<close>

text \<open>
  \<^verbatim>\<open>validateToken\<close>. The inner \<^verbatim>\<open>try\<close> encloses the session lookup and the user query
  as well as \<^verbatim>\<open>jwt.verify\<close>, so a failing user query is answered like a failing
  verification. \<^verbatim>\<open>getSession\<close> and \<^verbatim>\<open>deleteSession\<close> never throw. Nothing outside
  the inner \<^verbatim>\<open>try\<close> throws, so the outer handler (500) is never entered.
\<close>

definition validateToken :: "config \<Rightarrow> nat \<Rightarrow> world \<Rightarrow> request \<Rightarrow> outcome \<times> world" where
  "validateToken cfg now w req =
     (case authorization req of
        NoAuthorization \<Rightarrow>
          (Respond (failure 401 ''Access token required''
                      ''No authorization header or invalid format''), w)
      | OtherScheme _ \<Rightarrow>
          (Respond (failure 401 ''Access token required''
                      ''No authorization header or invalid format''), w)
      | Bearer tok \<Rightarrow>
          if tok = Opaque [] then
            (Respond (failure 401 ''Access token required'' ''Token not provided''), w)
          else
            (case jwt_verify tok (JWT_SECRET cfg) now of
               Inl jwtError \<Rightarrow>
                 (Respond (failure 401 ''Invalid token'' ''Token is invalid or expired''), w)
             | Inr decoded \<Rightarrow>
                 (case getSession now (c_sessionId decoded) w of
                    (session, w1) \<Rightarrow>
                      if \<not> (case session of None \<Rightarrow> False | Some v \<Rightarrow> truthy v) then
                        (Respond (failure 401 ''Invalid session''
                                    ''Session expired or invalid''), w1)
                      else
                        (case executeQuery (select_user_by_id (c_userId decoded)) w1 of
                           (Inl jwtError, w2) \<Rightarrow>
                             (Respond (failure 401 ''Invalid token''
                                         ''Token is invalid or expired''), w2)
                         | (Inr rows, w2) \<Rightarrow>
                             (case rows of
                                [] \<Rightarrow>
                                  (Respond (failure 401 ''User not found or inactive''
                                              ''User account is inactive or deleted''),
                                   deleteSession (c_sessionId decoded) w2)
                              | row # _ \<Rightarrow>
                                  if \<not> u_is_active row then
                                    (Respond (failure 401 ''User not found or inactive''
                                                ''User account is inactive or deleted''),
                                     deleteSession (c_sessionId decoded) w2)
                                  else
                                    (Next (req\<lparr>user := Some
                                             \<lparr>ru_id = c_userId decoded,
                                              ru_sessionId = c_sessionId decoded,
                                              ru_email = u_email row,
                                              ru_firstName = u_first_name row,
                                              ru_lastName = u_last_name row\<rparr>\<rparr>), w2))))))"

record token_pair =
  accessToken :: token
  refreshToken :: token

definition generateTokens :: "config \<Rightarrow> nat \<Rightarrow> string \<Rightarrow> string \<Rightarrow> token_pair" where
  "generateTokens cfg now userId sessionId =
     \<lparr>accessToken = jwt_sign userId sessionId now (15 * 60) (JWT_SECRET cfg),
      refreshToken = jwt_sign userId sessionId now (7 * 86400) (JWT_REFRESH_SECRET cfg)\<rparr>"

definition hashPassword :: "string \<Rightarrow> pwhash" where
  "hashPassword password = bcrypt_hash password 12"

text \<open>
  \<^verbatim>\<open>comparePassword\<close>: \<^verbatim>\<open>bcrypt.compare\<close> rejects when the password is not a string.
\<close>

fun comparePassword :: "body_value \<Rightarrow> pwhash \<Rightarrow> world \<Rightarrow> (exn + bool) \<times> world" where
  "comparePassword (StringValue password) hash w =
     (Inr (bcrypt_compare password hash), w\<lparr>password_compares := password_compares w + 1\<rparr>)"
| "comparePassword (OtherValue ty p) hash w =
     (Inl (Error (''Illegal arguments: '' @ ty @ '', string'')),
      w\<lparr>password_compares := password_compares w + 1\<rparr>)"

text \<open>
  \<^verbatim>\<open>authRateLimit\<close>: the counter of the client address, with a window of 15 minutes.
  \<^verbatim>\<open>incrementRateLimit\<close> never throws, so the handler of the \<^verbatim>\<open>catch\<close> is never entered.
\<close>

definition authRateLimit :: "nat \<Rightarrow> world \<Rightarrow> request \<Rightarrow> outcome \<times> world" where
  "authRateLimit now w req =
     (case incrementRateLimit now (''auth_rate_limit:'' @ ip req) (15 * 60 * 1000) w of
        (current, w') \<Rightarrow>
          if current > 5 then
            (Respond (failure 429 ''Rate limit exceeded''
                        ''Too many authentication attempts. Please try again later.''), w')
          else (Next req, w'))"

text \<open>
  \<^verbatim>\<open>logout\<close>: when \<^verbatim>\<open>req.user\<close> and its \<^verbatim>\<open>sessionId\<close> are set (the empty string is
  falsy), delete the session and the refresh-token row; an error of the query is
  caught, and the request continues either way.
\<close>

definition logout :: "world \<Rightarrow> request \<Rightarrow> outcome \<times> world" where
  "logout w req =
     (case user req of
        None \<Rightarrow> (Next req, w)
      | Some u \<Rightarrow>
          if ru_sessionId u = [] then (Next req, w)
          else
            (case executeQuery (delete_refresh_token (ru_id u) (ru_sessionId u))
                    (deleteSession (ru_sessionId u) w) of
               (_, w') \<Rightarrow> (Next req, w')))"

section \<open>Auth routes (api/routes/auth.js)\<close>

text \<open>
  The checks of express-validator's \<^verbatim>\<open>isEmail\<close> and \<^verbatim>\<open>normalizeEmail\<close> are
  parameters; \<^verbatim>\<open>notEmpty\<close> fails on a missing field and on one that reads as the empty
  string.
\<close>

record validators =
  isEmail :: "string \<Rightarrow> bool"
  normalizeEmail :: "string \<Rightarrow> string"

definition invalid_credentials :: response where
  "invalid_credentials = failure 401 ''Invalid credentials'' ''Email or password is incorrect''"

text \<open>
  The handler of \<^verbatim>\<open>POST /login\<close>. \<open>sessionId\<close> is the value \<^verbatim>\<open>generateSessionId()\<close>
  returns in this run. Whatever is thrown inside the handler (by a query, or by
  \<^verbatim>\<open>comparePassword\<close>) is answered 500 by its \<^verbatim>\<open>catch\<close>. The selected row has no
  \<^verbatim>\<open>firstName\<close> or \<^verbatim>\<open>lastName\<close> property (the columns are \<^verbatim>\<open>first_name\<close>,
  \<^verbatim>\<open>last_name\<close>), so these are undefined in the session and in the response.
\<close>

definition login_handler ::
  "config \<Rightarrow> validators \<Rightarrow> nat \<Rightarrow> string \<Rightarrow> world \<Rightarrow> request \<Rightarrow> response \<times> world" where
  "login_handler cfg vd now sessionId w req =
     (case (body_email req, body_password req) of
        (Some e, Some password) \<Rightarrow>
          if \<not> isEmail vd e \<or> printed password = [] then (validation_failed, w)
          else
            (case executeQuery (select_user_by_email (normalizeEmail vd e)) w of
               (Inl error, w1) \<Rightarrow>
                 (failure 500 ''Login failed'' ''Internal server error during login'', w1)
             | (Inr rows, w1) \<Rightarrow>
                 (case rows of
                    [] \<Rightarrow> (invalid_credentials, w1)
                  | row # _ \<Rightarrow>
                      if \<not> u_is_active row then
                        (failure 401 ''Account inactive'' ''Your account has been deactivated'',
                         w1)
                      else
                        (case comparePassword password (u_password_hash row) w1 of
                           (Inl error, w2) \<Rightarrow>
                             (failure 500 ''Login failed''
                                ''Internal server error during login'', w2)
                         | (Inr isPasswordValid, w2) \<Rightarrow>
                             if \<not> isPasswordValid then (invalid_credentials, w2)
                             else
                               (case executeQuery
                                       (insert_refresh_token now (u_id row) sessionId)
                                       (setSession now sessionId
                                          \<lparr>s_userId = u_id row, s_email = u_email row,
                                           s_firstName = None, s_lastName = None\<rparr> w2) of
                                  (Inl error, w3) \<Rightarrow>
                                    (failure 500 ''Login failed''
                                       ''Internal server error during login'', w3)
                                | (Inr _, w3) \<Rightarrow>
                                    (\<lparr>status = 200, success = True, err = None,
                                      message = Some ''Login successful'',
                                      r_data = LoginData
                                        \<lparr>uv_id = u_id row, uv_email = u_email row,
                                         uv_firstName = None, uv_lastName = None\<rparr>
                                        (accessToken (generateTokens cfg now (u_id row) sessionId))
                                        (refreshToken (generateTokens cfg now (u_id row) sessionId)),
                                      timestamp = Some now\<rparr>, w3)))))
      | _ \<Rightarrow> (validation_failed, w))"

text \<open>\<^verbatim>\<open>router.post('/login', authRateLimit, loginValidation, handler)\<close>\<close>

definition login_route ::
  "config \<Rightarrow> validators \<Rightarrow> nat \<Rightarrow> string \<Rightarrow> world \<Rightarrow> http_request \<Rightarrow> response \<times> world" where
  "login_route cfg vd now sessionId w h =
     (case authRateLimit now w (incoming h) of
        (Respond r, w') \<Rightarrow> (r, w')
      | (Next req, w') \<Rightarrow> login_handler cfg vd now sessionId w' req)"

text \<open>\<^verbatim>\<open>router.post('/refresh', refreshValidation, handler)\<close>\<close>

definition refresh_route :: "config \<Rightarrow> nat \<Rightarrow> world \<Rightarrow> http_request \<Rightarrow> response \<times> world" where
  "refresh_route cfg now w h =
     (case body_refreshToken h of
        None \<Rightarrow> (validation_failed, w)
      | Some tok \<Rightarrow>
          if tok = Opaque [] then (validation_failed, w)
          else
            (case jwt_verify tok (JWT_REFRESH_SECRET cfg) now of
               Inl jwtError \<Rightarrow>
                 (failure 401 ''Invalid refresh token'' ''Refresh token is invalid or expired'', w)
             | Inr decoded \<Rightarrow>
                 (case executeQuery (select_refresh_token now (c_sessionId decoded)) w of
                    (Inl error, w1) \<Rightarrow>
                      (failure 500 ''Token refresh failed''
                         ''Internal server error during token refresh'', w1)
                  | (Inr tokenRows, w1) \<Rightarrow>
                      if tokenRows = [] then
                        (failure 401 ''Invalid refresh token''
                           ''Refresh token not found or expired'', w1)
                      else
                        (case executeQuery (select_user_by_id (c_userId decoded)) w1 of
                           (Inl error, w2) \<Rightarrow>
                             (failure 500 ''Token refresh failed''
                                ''Internal server error during token refresh'', w2)
                         | (Inr rows, w2) \<Rightarrow>
                             (case rows of
                                [] \<Rightarrow>
                                  (failure 401 ''User not found or inactive''
                                     ''User account is inactive or deleted'', w2)
                              | row # _ \<Rightarrow>
                                  if \<not> u_is_active row then
                                    (failure 401 ''User not found or inactive''
                                       ''User account is inactive or deleted'', w2)
                                  else
                                    (\<lparr>status = 200, success = True, err = None,
                                      message = Some ''Token refreshed successfully'',
                                      r_data = RefreshData
                                        (jwt_sign (c_userId decoded) (c_sessionId decoded) now
                                           (15 * 60) (JWT_SECRET cfg)),
                                      timestamp = Some now\<rparr>, w2))))))"

text \<open>
  \<^verbatim>\<open>router.post('/logout', logout, handler)\<close>, mounted by \<^verbatim>\<open>app.use('/api/auth', authRoutes)\<close>:
  no middleware before \<^verbatim>\<open>logout\<close> sets \<^verbatim>\<open>req.user\<close>.
\<close>

definition logout_route :: "nat \<Rightarrow> world \<Rightarrow> http_request \<Rightarrow> response \<times> world" where
  "logout_route now w h =
     (case logout w (incoming h) of
        (Respond r, w') \<Rightarrow> (r, w')
      | (Next req, w') \<Rightarrow>
          (\<lparr>status = 200, success = True, err = None, message = Some ''Logout successful'',
            r_data = NoData, timestamp = Some now\<rparr>, w'))"

text \<open>
  \<^verbatim>\<open>router.get('/profile', handler)\<close>. As in \<^verbatim>\<open>validateToken\<close>, the inner \<^verbatim>\<open>try\<close>
  encloses the user query. An empty token fails \<^verbatim>\<open>jwt.verify\<close>.
\<close>

definition profile_route :: "config \<Rightarrow> nat \<Rightarrow> world \<Rightarrow> http_request \<Rightarrow> response \<times> world" where
  "profile_route cfg now w h =
     (case authorization h of
        NoAuthorization \<Rightarrow> (failure 401 ''Authentication required'' ''Access token required'', w)
      | OtherScheme _ \<Rightarrow> (failure 401 ''Authentication required'' ''Access token required'', w)
      | Bearer tok \<Rightarrow>
          (case jwt_verify tok (JWT_SECRET cfg) now of
             Inl jwtError \<Rightarrow> (failure 401 ''Invalid token'' ''Token is invalid or expired'', w)
           | Inr decoded \<Rightarrow>
               (case executeQuery (select_user_by_id (c_userId decoded)) w of
                  (Inl jwtError, w1) \<Rightarrow>
                    (failure 401 ''Invalid token'' ''Token is invalid or expired'', w1)
                | (Inr rows, w1) \<Rightarrow>
                    (case rows of
                       [] \<Rightarrow> (failure 404 ''User not found'' ''User profile not found'', w1)
                     | row # _ \<Rightarrow>
                         (\<lparr>status = 200, success = True, err = None, message = None,
                           r_data = ProfileData
                             \<lparr>uv_id = u_id row, uv_email = u_email row,
                              uv_firstName = None, uv_lastName = None\<rparr> (u_created_at row),
                           timestamp = Some now\<rparr>, w1)))))"


section \<open>Market data service (services/marketDataService.js)\<close>

subsection \<open>The upstream provider\<close>

text \<open>
  What the calls into yahoo-finance return, as the service reads it: a property the
  response lacks is undefined (\<open>None\<close>). Each call either throws, or returns a falsy
  value (\<open>Inr None\<close>), or returns a response. \<open>historical\<close> is given the symbol, the
  start of the lookback window in milliseconds (\<open>None\<close> for an invalid date) and the
  interval. The price and volume fields of a row are only ever passed to \<^verbatim>\<open>parseFloat\<close>
  and \<^verbatim>\<open>parseInt\<close>, which read the string form of their argument; such a field is given
  by that string (\<^verbatim>\<open>"undefined"\<close> for a field the row lacks).
\<close>

record raw_row =
  Date :: "nat option"
  Open :: string
  High :: string
  Low :: string
  Close :: string
  Volume :: string

record raw_quote =
  r_symbol :: "string option"
  regularMarketPrice :: "rat option"
  regularMarketChange :: "rat option"
  regularMarketChangePercent :: "rat option"
  regularMarketVolume :: "rat option"
  marketCap :: "rat option"
  regularMarketDayHigh :: "rat option"
  regularMarketDayLow :: "rat option"
  regularMarketOpen :: "rat option"
  regularMarketPreviousClose :: "rat option"

record raw_info =
  i_symbol :: "string option"
  i_longName :: "string option"
  i_shortName :: "string option"
  i_sector :: "string option"
  i_industry :: "string option"
  i_marketCap :: "rat option"
  i_fullTimeEmployees :: "rat option"
  i_website :: "string option"
  i_longBusinessSummary :: "string option"
  i_country :: "string option"
  i_currency :: "string option"
  i_exchange :: "string option"

record provider =
  historical :: "string \<Rightarrow> int option \<Rightarrow> string \<Rightarrow> exn + raw_row list option"
  quote_of :: "string \<Rightarrow> exn + raw_quote option"
  ticker_info :: "string \<Rightarrow> exn + raw_info option"

fun message_of :: "exn \<Rightarrow> string" where
  "message_of (Error m) = m"

text \<open>\<^verbatim>\<open>if (cached) return cached\<close>: a cached value counts when it is truthy.\<close>

definition cache_hit :: "rval option \<Rightarrow> rval option" where
  "cache_hit v = (case v of None \<Rightarrow> None | Some x \<Rightarrow> if truthy x then Some x else None)"

subsection \<open>getStockQuote and getSectorPerformance\<close>

definition quoteData :: "nat \<Rightarrow> raw_quote \<Rightarrow> quote" where
  "quoteData now q =
     \<lparr>q_symbol = r_symbol q, q_price = regularMarketPrice q, q_change = regularMarketChange q,
      q_changePercent = regularMarketChangePercent q, q_volume = regularMarketVolume q,
      q_marketCap = marketCap q, q_high = regularMarketDayHigh q,
      q_low = regularMarketDayLow q, q_open = regularMarketOpen q,
      q_previousClose = regularMarketPreviousClose q, q_timestamp = now\<rparr>"

definition getStockQuote :: "provider \<Rightarrow> nat \<Rightarrow> string \<Rightarrow> world \<Rightarrow> (exn + rval) \<times> world" where
  "getStockQuote pv now symbol w =
     (case getMarketData now (''quote:'' @ symbol) w of
        (cachedQuote, w1) \<Rightarrow>
          (case cache_hit cachedQuote of
             Some v \<Rightarrow> (Inr v, w1)
           | None \<Rightarrow>
               (case quote_of pv symbol of
                  Inl error \<Rightarrow>
                    (Inl (Error (''Failed to fetch quote for '' @ symbol @ '': '' @ message_of error)),
                     w1)
                | Inr None \<Rightarrow>
                    (Inl (Error (''Failed to fetch quote for '' @ symbol @ '': ''
                                 @ ''No quote found for symbol: '' @ symbol)), w1)
                | Inr (Some q) \<Rightarrow>
                    (Inr (RQuote (quoteData now q)),
                     setMarketData now (''quote:'' @ symbol) (RQuote (quoteData now q)) 60 w1))))"

text \<open>Reading \<^verbatim>\<open>quote.price\<close> and its siblings off whatever \<^verbatim>\<open>getStockQuote\<close> returned.\<close>

fun price_of :: "rval \<Rightarrow> rat option" where
  "price_of (RQuote q) = q_price q"
| "price_of _ = None"

fun change_of :: "rval \<Rightarrow> rat option" where
  "change_of (RQuote q) = q_change q"
| "change_of _ = None"

fun changePercent_of :: "rval \<Rightarrow> rat option" where
  "changePercent_of (RQuote q) = q_changePercent q"
| "changePercent_of _ = None"

definition sectorETFs :: "(string \<times> string) list" where
  "sectorETFs =
     [(''XLK'', ''Technology''), (''XLF'', ''Financials''), (''XLE'', ''Energy''),
      (''XLV'', ''Healthcare''), (''XLI'', ''Industrials''), (''XLP'', ''Consumer Staples''),
      (''XLY'', ''Consumer Discretionary''), (''XLU'', ''Utilities''),
      (''XLB'', ''Materials''), (''XLRE'', ''Real Estate'')]"

text \<open>
  The loop over \<^verbatim>\<open>Object.entries(sectorETFs)\<close>; \<^verbatim>\<open>sectors[sectorName] = ...\<close> replaces the
  entry of that name or appends a new one.
\<close>

fun sector_loop ::
  "provider \<Rightarrow> nat \<Rightarrow> (string \<times> string) list \<Rightarrow> (string \<times> sector_entry) list \<Rightarrow> world
     \<Rightarrow> (string \<times> sector_entry) list \<times> world" where
  "sector_loop pv now [] sectors w = (sectors, w)"
| "sector_loop pv now ((etf, sectorName) # rest) sectors w =
     (case getStockQuote pv now etf w of
        (Inr quote, w') \<Rightarrow>
          sector_loop pv now rest
            (AList.update sectorName
               (SectorQuote etf sectorName (price_of quote) (change_of quote)
                  (changePercent_of quote)) sectors) w'
      | (Inl error, w') \<Rightarrow>
          sector_loop pv now rest
            (AList.update sectorName (SectorError (message_of error)) sectors) w')"

text \<open>
  Nothing inside the outer \<^verbatim>\<open>try\<close> of \<^verbatim>\<open>getSectorPerformance\<close> throws (the cache
  helpers catch their errors, the loop catches the quote's), so its handler is never
  entered.
\<close>

definition getSectorPerformance :: "provider \<Rightarrow> nat \<Rightarrow> world \<Rightarrow> (exn + rval) \<times> world" where
  "getSectorPerformance pv now w =
     (case getMarketData now ''sector_performance'' w of
        (cachedSectors, w1) \<Rightarrow>
          (case cache_hit cachedSectors of
             Some v \<Rightarrow> (Inr v, w1)
           | None \<Rightarrow>
               (case sector_loop pv now sectorETFs [] w1 of
                  (sectors, w2) \<Rightarrow>
                    (Inr (RSectors sectors),
                     setMarketData now ''sector_performance'' (RSectors sectors) 300 w2))))"

subsection \<open>getCompanyInfo\<close>

definition js_or :: "string option \<Rightarrow> string option \<Rightarrow> string option" where
  \<comment> \<open>\<^verbatim>\<open>a || b\<close> on strings: the empty string is falsy\<close>
  "js_or a b = (case a of None \<Rightarrow> b | Some x \<Rightarrow> if x = [] then b else Some x)"

definition companyInfo :: "nat \<Rightarrow> raw_info \<Rightarrow> company_info" where
  "companyInfo now info =
     \<lparr>ci_symbol = i_symbol info, ci_name = js_or (i_longName info) (i_shortName info),
      ci_sector = i_sector info, ci_industry = i_industry info,
      ci_marketCap = i_marketCap info, ci_employees = i_fullTimeEmployees info,
      ci_website = i_website info, ci_description = i_longBusinessSummary info,
      ci_country = i_country info, ci_currency = i_currency info,
      ci_exchange = i_exchange info, ci_timestamp = now\<rparr>"

definition getCompanyInfo :: "provider \<Rightarrow> nat \<Rightarrow> string \<Rightarrow> world \<Rightarrow> (exn + rval) \<times> world" where
  "getCompanyInfo pv now symbol w =
     (case getMarketData now (''company_info:'' @ symbol) w of
        (cachedInfo, w1) \<Rightarrow>
          (case cache_hit cachedInfo of
             Some v \<Rightarrow> (Inr v, w1)
           | None \<Rightarrow>
               (case ticker_info pv symbol of
                  Inl error \<Rightarrow>
                    (Inl (Error (''Failed to fetch company info for '' @ symbol @ '': ''
                                 @ message_of error)), w1)
                | Inr None \<Rightarrow>
                    (Inl (Error (''Failed to fetch company info for '' @ symbol @ '': ''
                                 @ ''No company info found for symbol: '' @ symbol)), w1)
                | Inr (Some info) \<Rightarrow>
                    (Inr (RCompany (companyInfo now info)),
                     setMarketData now (''company_info:'' @ symbol)
                       (RCompany (companyInfo now info)) 3600 w1))))"

fun name_of :: "rval \<Rightarrow> string option" where
  "name_of (RCompany c) = ci_name c"
| "name_of _ = None"

fun sector_of :: "rval \<Rightarrow> string option" where
  "sector_of (RCompany c) = ci_sector c"
| "sector_of _ = None"

fun industry_of :: "rval \<Rightarrow> string option" where
  "industry_of (RCompany c) = ci_industry c"
| "industry_of _ = None"

fun marketCap_of :: "rval \<Rightarrow> rat option" where
  "marketCap_of (RCompany c) = ci_marketCap c"
| "marketCap_of (RQuote q) = q_marketCap q"
| "marketCap_of _ = None"

subsection \<open>storeStockData\<close>

text \<open>
  The statements sent on the pooled client. A data statement takes effect on the
  transaction's working copy of the tables when a transaction is open, and on the
  tables themselves otherwise; \<^verbatim>\<open>COMMIT\<close> makes the working copy the tables, \<^verbatim>\<open>ROLLBACK\<close>
  discards it. A statement throws when the call fails or when the row violates a
  constraint of the schema (the \<^verbatim>\<open>VARCHAR\<close> lengths, \<^verbatim>\<open>time ... NOT NULL\<close>, the \<^verbatim>\<open>BIGINT\<close>
  columns, an infinite value for a \<^verbatim>\<open>DECIMAL(10,2)\<close> column); the rounding and the range
  of the finite values of the \<^verbatim>\<open>DECIMAL(10,2)\<close> columns are not modelled.
\<close>

datatype stmt =
    BEGIN
  | COMMIT
  | ROLLBACK
  | UpsertStock string "string option" "string option" "string option" "rat option"
  | UpsertPrice "nat option" string jsnum jsnum jsnum jsnum jsnum

record pg_client =
  txn :: "market_tables option"

definition too_long :: "nat \<Rightarrow> string option \<Rightarrow> bool" where
  \<comment> \<open>a value that does not fit \<^verbatim>\<open>VARCHAR(n)\<close>; NULL fits\<close>
  "too_long n v = (case v of None \<Rightarrow> False | Some x \<Rightarrow> length x > n)"

definition not_integer :: "rat \<Rightarrow> bool" where
  \<comment> \<open>a number that \<^verbatim>\<open>BIGINT\<close> does not take: a fraction, or outside 64 bits\<close>
  "not_integer v = (v \<noteq> of_int \<lfloor>v\<rfloor> \<or> v < - (2 ^ 63) \<or> 2 ^ 63 \<le> v)"

definition is_infinity :: "jsnum \<Rightarrow> bool" where
  "is_infinity x = (x = PlusInfinity \<or> x = MinusInfinity)"

fun apply_stmt :: "nat \<Rightarrow> stmt \<Rightarrow> market_tables \<Rightarrow> exn + market_tables" where
  "apply_stmt now (UpsertStock symbol name sector industry cap) t =
     (if length symbol > 10 \<or> too_long 255 name \<or> too_long 100 sector \<or> too_long 100 industry
      then Inl (Error ''value too long for type character varying'')
      else if (case cap of None \<Rightarrow> False | Some c \<Rightarrow> not_integer c)
      then Inl (Error ''invalid input syntax for type bigint'')
      else Inr (t\<lparr>stocks := (stocks t)(symbol \<mapsto>
              \<lparr>st_company_name = name, st_sector = sector, st_industry = industry,
               st_market_cap = map_option floor cap,
               st_created_at = (case stocks t symbol of None \<Rightarrow> now | Some old \<Rightarrow> st_created_at old),
               st_updated_at = now\<rparr>)\<rparr>))"
| "apply_stmt now (UpsertPrice time symbol op hi lo cl vol) t =
     (case time of
        None \<Rightarrow> Inl (Error ''null value in column time violates not-null constraint'')
      | Some tm \<Rightarrow>
          if length symbol > 10 then Inl (Error ''value too long for type character varying'')
          else if is_infinity op \<or> is_infinity hi \<or> is_infinity lo \<or> is_infinity cl
          then Inl (Error ''numeric field overflow'')
          else
            (case vol of
               Num v \<Rightarrow>
                 if not_integer v then Inl (Error ''invalid input syntax for type bigint'')
                 else Inr (t\<lparr>stock_prices := (stock_prices t)((tm, symbol) \<mapsto>
                        \<lparr>p_open = op, p_high = hi, p_low = lo, p_close = cl,
                         p_volume = \<lfloor>v\<rfloor>\<rparr>)\<rparr>)
             | _ \<Rightarrow> Inl (Error ''invalid input syntax for type bigint'')))"
| "apply_stmt now _ t = Inr t"

definition client_query ::
  "nat \<Rightarrow> stmt \<Rightarrow> pg_client \<Rightarrow> world \<Rightarrow> (exn + unit) \<times> pg_client \<times> world" where
  "client_query now q c w =
     (case io_call w of
        (True, w') \<Rightarrow> (Inl (Error ''pg: query failed''), c, w')
      | (False, w') \<Rightarrow>
          (case q of
             BEGIN \<Rightarrow>
               (Inr (), c\<lparr>txn := Some (case txn c of None \<Rightarrow> tables w' | Some t \<Rightarrow> t)\<rparr>, w')
           | COMMIT \<Rightarrow>
               (case txn c of
                  None \<Rightarrow> (Inr (), c, w')
                | Some t \<Rightarrow> (Inr (), c\<lparr>txn := None\<rparr>, w'\<lparr>tables := t\<rparr>))
           | ROLLBACK \<Rightarrow> (Inr (), c\<lparr>txn := None\<rparr>, w')
           | _ \<Rightarrow>
               (case txn c of
                  None \<Rightarrow>
                    (case apply_stmt now q (tables w') of
                       Inl e \<Rightarrow> (Inl e, c, w')
                     | Inr t' \<Rightarrow> (Inr (), c, w'\<lparr>tables := t'\<rparr>))
                | Some t \<Rightarrow>
                    (case apply_stmt now q t of
                       Inl e \<Rightarrow> (Inl e, c, w')
                     | Inr t' \<Rightarrow> (Inr (), c\<lparr>txn := Some t'\<rparr>, w')))))"

definition priceQuery :: "string \<Rightarrow> bar \<Rightarrow> stmt" where
  "priceQuery symbol row =
     UpsertPrice (b_time row) symbol (b_open row) (b_high row) (b_low row) (b_close row)
       (b_volume row)"

text \<open>\<^verbatim>\<open>for (const row of data) await client.query(priceQuery, [...])\<close>\<close>

fun store_rows ::
  "nat \<Rightarrow> string \<Rightarrow> bar list \<Rightarrow> pg_client \<Rightarrow> world \<Rightarrow> (exn + unit) \<times> pg_client \<times> world" where
  "store_rows now symbol [] c w = (Inr (), c, w)"
| "store_rows now symbol (row # rows) c w =
     (case client_query now (priceQuery symbol row) c w of
        (Inl e, c', w') \<Rightarrow> (Inl e, c', w')
      | (Inr _, c', w') \<Rightarrow> store_rows now symbol rows c' w')"

text \<open>The body of the inner \<^verbatim>\<open>try\<close>: BEGIN, the company info, the two upserts, COMMIT.\<close>

definition store_transaction ::
  "provider \<Rightarrow> nat \<Rightarrow> string \<Rightarrow> bar list \<Rightarrow> pg_client \<Rightarrow> world
     \<Rightarrow> (exn + unit) \<times> pg_client \<times> world" where
  "store_transaction pv now symbol data c w =
     (case client_query now BEGIN c w of
        (Inl e, c1, w1) \<Rightarrow> (Inl e, c1, w1)
      | (Inr _, c1, w1) \<Rightarrow>
          (case getCompanyInfo pv now symbol w1 of
             (Inl e, w2) \<Rightarrow> (Inl e, c1, w2)
           | (Inr info, w2) \<Rightarrow>
               (case client_query now
                       (UpsertStock symbol (name_of info) (sector_of info) (industry_of info)
                          (marketCap_of info)) c1 w2 of
                  (Inl e, c3, w3) \<Rightarrow> (Inl e, c3, w3)
                | (Inr _, c3, w3) \<Rightarrow>
                    (case store_rows now symbol data c3 w3 of
                       (Inl e, c4, w4) \<Rightarrow> (Inl e, c4, w4)
                     | (Inr _, c4, w4) \<Rightarrow> client_query now COMMIT c4 w4))))"

text \<open>
  The client that \<^verbatim>\<open>pool.connect()\<close> hands out is in the state it was released in, and
  \<^verbatim>\<open>client.release()\<close> puts it back as it is, an open transaction included.
\<close>

definition checkout :: "world \<Rightarrow> pg_client" where
  "checkout w = \<lparr>txn = pooled_txn w\<rparr>"

definition release :: "pg_client \<Rightarrow> world \<Rightarrow> world" where
  "release c w = w\<lparr>pooled_txn := txn c\<rparr>"

text \<open>
  \<^verbatim>\<open>storeStockData\<close>: an error of the inner \<^verbatim>\<open>try\<close> is answered with ROLLBACK and
  thrown again; the client is released in either case; the outer \<^verbatim>\<open>catch\<close> logs
  whatever was thrown (by the connection, the body or the ROLLBACK) and returns.
\<close>

definition storeStockData ::
  "provider \<Rightarrow> nat \<Rightarrow> string \<Rightarrow> bar list \<Rightarrow> world \<Rightarrow> (exn + unit) \<times> world" where
  "storeStockData pv now symbol data w =
     (case pool_connect w of
        (Inl error, w1) \<Rightarrow> (Inr (), w1)
      | (Inr _, w1) \<Rightarrow>
          (case store_transaction pv now symbol data (checkout w1) w1 of
             (Inr _, c, w2) \<Rightarrow> (Inr (), release c w2)
           | (Inl error, c, w2) \<Rightarrow>
               (case client_query now ROLLBACK c w2 of
                  (_, c', w3) \<Rightarrow> (Inr (), release c' w3))))"

subsection \<open>getStockData\<close>

text \<open>
  \<^verbatim>\<open>parseFloat\<close> and \<^verbatim>\<open>parseInt\<close> are functions of the JavaScript runtime that compute in
  floating point; they are parameters, from the string form of the argument to the
  number returned.
\<close>

record runtime =
  parseFloat :: "string \<Rightarrow> jsnum"
  parseInt :: "string \<Rightarrow> jsnum"

definition transform :: "runtime \<Rightarrow> raw_row \<Rightarrow> bar" where
  "transform rt row =
     \<lparr>b_time = Date row, b_open = parseFloat rt (Open row), b_high = parseFloat rt (High row),
      b_low = parseFloat rt (Low row), b_close = parseFloat rt (Close row),
      b_volume = parseInt rt (Volume row)\<rparr>"

definition period1 :: "nat \<Rightarrow> string \<Rightarrow> int option" where
  \<comment> \<open>\<^verbatim>\<open>new Date(Date.now() - getPeriodInDays(period) * 24 * 60 * 60 * 1000)\<close>\<close>
  "period1 now period =
     (case getPeriodInDays period of
        JNumber days \<Rightarrow> Some (int now * 1000 - days * 24 * 60 * 60 * 1000)
      | JInherited _ \<Rightarrow> None)"

definition getStockData ::
  "runtime \<Rightarrow> provider \<Rightarrow> nat \<Rightarrow> string \<Rightarrow> string \<Rightarrow> string \<Rightarrow> world
     \<Rightarrow> (exn + rval) \<times> world" where
  "getStockData rt pv now symbol period interval w =
     (case getMarketData now (''stock_data:'' @ symbol @ '':'' @ period @ '':'' @ interval) w of
        (cachedData, w1) \<Rightarrow>
          (case cache_hit cachedData of
             Some v \<Rightarrow> (Inr v, w1)
           | None \<Rightarrow>
               (case historical pv symbol (period1 now period) interval of
                  Inl error \<Rightarrow>
                    (Inl (Error (''Failed to fetch stock data for '' @ symbol @ '': ''
                                 @ message_of error)), w1)
                | Inr None \<Rightarrow>
                    (Inl (Error (''Failed to fetch stock data for '' @ symbol @ '': ''
                                 @ ''No data found for symbol: '' @ symbol)), w1)
                | Inr (Some rows) \<Rightarrow>
                    if rows = [] then
                      (Inl (Error (''Failed to fetch stock data for '' @ symbol @ '': ''
                                   @ ''No data found for symbol: '' @ symbol)), w1)
                    else
                      (case storeStockData pv now symbol (map (transform rt) rows)
                              (setMarketData now
                                 (''stock_data:'' @ symbol @ '':'' @ period @ '':'' @ interval)
                                 (RBars (map (transform rt) rows)) 300 w1) of
                         (Inl error, w2) \<Rightarrow>
                           (Inl (Error (''Failed to fetch stock data for '' @ symbol @ '': ''
                                        @ message_of error)), w2)
                       | (Inr _, w2) \<Rightarrow> (Inr (RBars (map (transform rt) rows)), w2)))))"



section \<open>A client's attempts, one after the other\<close>

text \<open>
  Requests pass \<^verbatim>\<open>authRateLimit\<close> one after the other, each at its instant; for each
  attempt the result records \<open>None\<close> when the gate called \<^verbatim>\<open>next()\<close>, and the status
  of the response when the gate answered itself.
\<close>

fun auth_attempts :: "world \<Rightarrow> (nat \<times> request) list \<Rightarrow> nat option list \<times> world" where
  "auth_attempts w [] = ([], w)"
| "auth_attempts w ((t, req) # rest) =
     (case authRateLimit t w req of
        (out, w') \<Rightarrow>
          (case auth_attempts w' rest of
             (vs, w'') \<Rightarrow>
               ((case out of Next _ \<Rightarrow> None | Respond r \<Rightarrow> Some (status r)) # vs, w'')))"

section \<open>Example worlds\<close>

definition cfg0 :: config where
  "cfg0 = \<lparr>JWT_SECRET = ''access-secret'', JWT_REFRESH_SECRET = ''refresh-secret''\<rparr>"

definition vd0 :: validators where
  "vd0 = \<lparr>isEmail = (\<lambda>e. CHR ''@'' \<in> set e), normalizeEmail = (\<lambda>e. e)\<rparr>"

definition alice :: user_row where
  "alice = \<lparr>u_id = ''u1'', u_email = ''a@b.com'', u_password_hash = Bcrypt 12 ''Secur3!Pass'',
            u_first_name = ''A'', u_last_name = ''B'', u_is_active = True, u_created_at = 7\<rparr>"

definition bob :: user_row where
  "bob = \<lparr>u_id = ''u2'', u_email = ''bob@b.com'', u_password_hash = Bcrypt 12 ''B0b!Passw'',
          u_first_name = ''Bob'', u_last_name = ''C'', u_is_active = False, u_created_at = 8\<rparr>"

definition no_tables :: market_tables where
  "no_tables = \<lparr>stocks = Map.empty, stock_prices = Map.empty\<rparr>"

text \<open>Two users, Bob deactivated; nothing cached, nobody logged in.\<close>

definition base_world :: world where
  "base_world =
     \<lparr>redis_client = True, db_pool = True, faults = [], redis = Map.empty,
      users = [alice, bob], refresh_tokens = [], tables = no_tables, password_compares = 0, pooled_txn = None\<rparr>"

definition credentials :: "string \<Rightarrow> string \<Rightarrow> http_request" where
  "credentials e p =
     \<lparr>ip = ''10.0.0.1'', authorization = NoAuthorization, body_email = Some e,
      body_password = Some (StringValue p), body_refreshToken = None\<rparr>"

definition bearer :: "token \<Rightarrow> http_request" where
  "bearer t =
     \<lparr>ip = ''10.0.0.1'', authorization = Bearer t, body_email = None,
      body_password = None, body_refreshToken = None\<rparr>"

definition presenting :: "token \<Rightarrow> http_request" where
  "presenting t =
     \<lparr>ip = ''10.0.0.1'', authorization = NoAuthorization, body_email = None,
      body_password = None, body_refreshToken = Some t\<rparr>"

text \<open>
  The world after Alice has logged in at instant 100 and was given the session id
  \<^verbatim>\<open>s1\<close> (lemma \<open>alice_logs_in\<close> below), and the tokens she was given.
\<close>

definition alice_session :: session where
  "alice_session =
     \<lparr>s_userId = ''u1'', s_email = ''a@b.com'', s_firstName = None, s_lastName = None\<rparr>"

definition logged_in :: world where
  "logged_in =
     \<lparr>redis_client = True, db_pool = True, faults = [],
      redis = [''auth_rate_limit:10.0.0.1'' \<mapsto> \<lparr>rvalue = RCounter 1, rexpires = Some 1000\<rparr>,
               ''session:s1'' \<mapsto> \<lparr>rvalue = RSession alice_session, rexpires = Some 86500\<rparr>],
      users = [alice, bob],
      refresh_tokens = [\<lparr>rt_user_id = ''u1'', rt_token = ''s1'', rt_expires_at = 604900\<rparr>],
      tables = no_tables, password_compares = 1, pooled_txn = None\<rparr>"

definition alice_access :: token where
  "alice_access = Signed ''access-secret'' ''u1'' ''s1'' 1000"

definition alice_refresh :: token where
  "alice_refresh = Signed ''refresh-secret'' ''u1'' ''s1'' 604900"

text \<open>A world in which Bob, since deactivated, still has a live session \<^verbatim>\<open>s2\<close>.\<close>

definition bob_world :: world where
  "bob_world =
     \<lparr>redis_client = True, db_pool = True, faults = [],
      redis = [''session:s2'' \<mapsto>
                 \<lparr>rvalue = RSession \<lparr>s_userId = ''u2'', s_email = ''bob@b.com'',
                                      s_firstName = None, s_lastName = None\<rparr>,
                  rexpires = Some 86500\<rparr>],
      users = [alice, bob],
      refresh_tokens = [\<lparr>rt_user_id = ''u2'', rt_token = ''s2'', rt_expires_at = 604900\<rparr>],
      tables = no_tables, password_compares = 1, pooled_txn = None\<rparr>"

definition bob_access :: token where
  "bob_access = Signed ''access-secret'' ''u2'' ''s2'' 1000"

text \<open>A world in which the address has used its five attempts.\<close>

definition five_used :: world where
  "five_used =
     base_world\<lparr>redis := [''auth_rate_limit:10.0.0.1'' \<mapsto>
                             \<lparr>rvalue = RCounter 5, rexpires = Some 1000\<rparr>]\<rparr>"


text \<open>
  A provider that answers every quote but the one of \<^verbatim>\<open>XLE\<close>, has two daily bars and
  the company info of \<^verbatim>\<open>AAPL\<close>, and nothing else.
\<close>

definition flat_quote :: "string \<Rightarrow> raw_quote" where
  "flat_quote s =
     \<lparr>r_symbol = Some s, regularMarketPrice = Some 100, regularMarketChange = Some 1,
      regularMarketChangePercent = Some (1 / 100), regularMarketVolume = None,
      marketCap = None, regularMarketDayHigh = None, regularMarketDayLow = None,
      regularMarketOpen = None, regularMarketPreviousClose = None\<rparr>"

definition raw1 :: raw_row where
  "raw1 = \<lparr>Date = Some 1, Open = ''10'', High = ''12'', Low = ''9'', Close = ''11'',
           Volume = ''1000''\<rparr>"

definition raw2 :: raw_row where
  "raw2 = \<lparr>Date = Some 2, Open = ''11'', High = ''13'', Low = ''10'', Close = ''12'',
           Volume = ''2000''\<rparr>"

text \<open>
  The runtime of the examples: a string of decimal digits is read as the number it
  writes, as \<^verbatim>\<open>parseFloat\<close> and \<^verbatim>\<open>parseInt\<close> do for the short strings of these rows;
  the examples pass it no other string, and it returns NaN for them.
\<close>

definition digit_value :: "char \<Rightarrow> nat" where
  "digit_value c = of_char c - of_char CHR ''0''"

definition read_digits :: "string \<Rightarrow> jsnum" where
  "read_digits s =
     (if s \<noteq> [] \<and> list_all (\<lambda>c. c \<in> set ''0123456789'') s
      then Num (of_nat (foldl (\<lambda>n c. 10 * n + digit_value c) 0 s))
      else NaN)"

definition rt0 :: runtime where
  "rt0 = \<lparr>parseFloat = read_digits, parseInt = read_digits\<rparr>"




definition apple_info :: raw_info where
  "apple_info =
     \<lparr>i_symbol = Some ''AAPL'', i_longName = Some ''Apple Inc.'', i_shortName = Some ''Apple'',
      i_sector = Some ''Technology'', i_industry = Some ''Consumer Electronics'',
      i_marketCap = Some 3000, i_fullTimeEmployees = None, i_website = None,
      i_longBusinessSummary = None, i_country = None, i_currency = None,
      i_exchange = None\<rparr>"

definition pv0 :: provider where
  "pv0 =
     \<lparr>historical = (\<lambda>s p i. if s = ''AAPL'' then Inr (Some [raw1, raw2]) else Inr (Some [])),
      quote_of = (\<lambda>s. if s = ''XLE'' then Inl (Error ''socket hang up'')
                       else Inr (Some (flat_quote s))),
      ticker_info = (\<lambda>s. if s = ''AAPL'' then Inr (Some apple_info)
                          else Inl (Error ''Not Found''))\<rparr>"

definition apple_stored :: market_tables where
  "apple_stored =
     \<lparr>stocks = [''AAPL'' \<mapsto>
                  \<lparr>st_company_name = Some ''Apple Inc.'', st_sector = Some ''Technology'',
                   st_industry = Some ''Consumer Electronics'', st_market_cap = Some 3000,
                   st_created_at = 100, st_updated_at = 100\<rparr>],
      stock_prices =
        [(1, ''AAPL'') \<mapsto> \<lparr>p_open = Num 10, p_high = Num 12, p_low = Num 9,
                              p_close = Num 11, p_volume = 1000\<rparr>,
         (2, ''AAPL'') \<mapsto> \<lparr>p_open = Num 11, p_high = Num 13, p_low = Num 10,
                              p_close = Num 12, p_volume = 2000\<rparr>]\<rparr>"

section \<open>Auxiliary notions for the properties\<close>

text \<open>
  A world is healthy when the cache client and the database pool are set and no call
  into the redis or pg libraries is scheduled to fail.
\<close>

definition healthy :: "world \<Rightarrow> bool" where
  "healthy w = (redis_client w \<and> db_pool w \<and> faults w = [])"


text \<open>The entry \<^verbatim>\<open>getSectorPerformance\<close> writes for the outcome of one quote fetch.\<close>

definition entry_of :: "exn + rval \<Rightarrow> string \<Rightarrow> string \<Rightarrow> sector_entry" where
  "entry_of r etf name =
     (case r of
        Inl e \<Rightarrow> SectorError (message_of e)
      | Inr q \<Rightarrow> SectorQuote etf name (price_of q) (change_of q) (changePercent_of q))"


section \<open>Properties\<close>

subsection \<open>Period lookback\<close>

lemma getPeriodInDays_enumerated:
  "map getPeriodInDays [''1d'', ''5d'', ''1mo'', ''3mo'', ''6mo'', ''1y'', ''2y'', ''5y'', ''10y'', ''ytd'', ''max'']
     = map JNumber [1, 5, 30, 90, 180, 365, 730, 1825, 3650, 365, 3650]"
  by (simp add: getPeriodInDays_def js_get_def periodMap_def)

lemma getPeriodInDays_default:
  assumes "period \<notin> fst ` set periodMap" and "period \<notin> set object_prototype_members"
  shows "getPeriodInDays period = JNumber 365"
proof -
  have "map_of periodMap period = None"
    using assms(1) by (simp only: map_of_eq_None_iff not_False_eq_True)
  with assms(2) show ?thesis
    by (simp add: getPeriodInDays_def js_get_def)
qed

text \<open>
  C7. The mapping sends \<^verbatim>\<open>"1y"\<close> to 365 and \<^verbatim>\<open>"max"\<close> to 3650, and is meant to send
  every string outside the enumerated set to 365. The string \<^verbatim>\<open>"constructor"\<close> is
  outside the enumerated set, yet the read finds the inherited member, which is truthy,
  so the function returns that member and not 365.
\<close>

theorem getPeriodInDays_constructor_not_365:
  "''constructor'' \<notin> fst ` set periodMap
   \<and> getPeriodInDays ''1y'' = JNumber 365
   \<and> getPeriodInDays ''max'' = JNumber 3650
   \<and> getPeriodInDays ''constructor'' = JInherited ''constructor''
   \<and> getPeriodInDays ''constructor'' \<noteq> JNumber 365"
  by (simp add: getPeriodInDays_def js_get_def periodMap_def object_prototype_members_def)

subsection \<open>Helpers: a healthy world\<close>

lemma healthy_io_call: "healthy w \<Longrightarrow> io_call w = (False, w)"
  by (simp add: healthy_def io_call_def)

lemma healthy_getCache:
  "healthy w \<Longrightarrow> getCache now key w = (map_option rvalue (redis_lookup now w key), w)"
  by (simp add: getCache_def getClient_def redis_GET_def healthy_io_call) (simp add: healthy_def)

lemma healthy_deleteCache:
  "healthy w \<Longrightarrow> deleteCache key w = w\<lparr>redis := (redis w)(key := None)\<rparr>"
  by (simp add: deleteCache_def getClient_def redis_DEL_def healthy_io_call) (simp add: healthy_def)


lemma healthy_executeQuery: "healthy w \<Longrightarrow> executeQuery statement w = statement w"
  by (simp add: executeQuery_def pool_connect_def healthy_io_call) (simp add: healthy_def)

lemma healthy_redis_update [simp]: "healthy (w\<lparr>redis := r\<rparr>) = healthy w"
  by (simp add: healthy_def)

lemma filter_find_None: "find P xs = None \<Longrightarrow> filter P xs = []"
  by (induction xs) (auto split: if_splits)

lemma filter_find_Some: "find P xs = Some x \<Longrightarrow> \<exists>ys. filter P xs = x # ys"
  by (induction xs) (auto split: if_splits)

lemma getSession_absent:
  "redis_lookup now w (''session:'' @ sid) = None \<Longrightarrow> fst (getSession now sid w) = None"
  by (simp add: getSession_def getCache_def getClient_def redis_GET_def io_call_def
      redis_lookup_def split: list.splits bool.splits option.splits)

subsection \<open>Helpers: queries\<close>

lemma db_ok_executeQuery:
  "db_pool w \<Longrightarrow> faults w = [] \<Longrightarrow> executeQuery statement w = statement w"
  by (simp add: executeQuery_def pool_connect_def io_call_def)

lemma io_call_frame: "\<exists>fs. snd (io_call w) = w\<lparr>faults := fs\<rparr>"
proof (cases "faults w")
  case Nil
  then have "snd (io_call w) = w\<lparr>faults := faults w\<rparr>" by (simp add: io_call_def)
  then show ?thesis by blast
next
  case (Cons f fs)
  then have "snd (io_call w) = w\<lparr>faults := fs\<rparr>" by (simp add: io_call_def)
  then show ?thesis by blast
qed

text \<open>A statement that only reads: the query fails, or returns what the statement reads;
  either way only the fault schedule has moved.\<close>

lemma executeQuery_read:
  assumes st: "\<And>v. statement v = (Inr (f v), v)"
    and indep: "\<And>v fs. f (v\<lparr>faults := fs\<rparr>) = f v"
  shows "\<exists>fs. (\<exists>e. executeQuery statement w = (Inl e, w\<lparr>faults := fs\<rparr>))
              \<or> executeQuery statement w = (Inr (f w), w\<lparr>faults := fs\<rparr>)"
proof (cases "db_pool w")
  case False
  then have "executeQuery statement w =
      (Inl (Error ''Database not connected. Call connectDatabase() first.''), w\<lparr>faults := faults w\<rparr>)"
    by (simp add: executeQuery_def pool_connect_def)
  then show ?thesis by blast
next
  case True
  show ?thesis
  proof (cases "faults w")
    case Nil
    then have "executeQuery statement w = (Inr (f w), w\<lparr>faults := faults w\<rparr>)"
      using True by (simp add: executeQuery_def pool_connect_def io_call_def st)
    then show ?thesis by blast
  next
    case (Cons a fs)
    note outer = Cons
    show ?thesis
    proof (cases a)
      case True
      then have "executeQuery statement w = (Inl (Error ''pg: connect failed''), w\<lparr>faults := fs\<rparr>)"
        using \<open>db_pool w\<close> outer by (simp add: executeQuery_def pool_connect_def io_call_def)
      then show ?thesis by blast
    next
      case False
      note a_false = False
      show ?thesis
      proof (cases fs)
        case Nil
        then have "executeQuery statement w = (Inr (f w), w\<lparr>faults := []\<rparr>)"
          using \<open>db_pool w\<close> outer a_false
          by (simp add: executeQuery_def pool_connect_def io_call_def st indep)
        then show ?thesis by blast
      next
        case (Cons b gs)
        show ?thesis
        proof (cases b)
          case True
          then have "executeQuery statement w = (Inl (Error ''pg: query failed''), w\<lparr>faults := gs\<rparr>)"
            using \<open>db_pool w\<close> outer a_false Cons
            by (simp add: executeQuery_def pool_connect_def io_call_def)
          then show ?thesis by blast
        next
          case False
          then have "executeQuery statement w = (Inr (f w), w\<lparr>faults := gs\<rparr>)"
            using \<open>db_pool w\<close> outer a_false Cons
            by (simp add: executeQuery_def pool_connect_def io_call_def st indep)
          then show ?thesis by blast
        qed
      qed
    qed
  qed
qed

lemma select_refresh_token_read:
  "\<exists>fs. (\<exists>e. executeQuery (select_refresh_token now sid) w = (Inl e, w\<lparr>faults := fs\<rparr>))
        \<or> executeQuery (select_refresh_token now sid) w =
            (Inr (filter (\<lambda>r. rt_token r = sid \<and> rt_expires_at r > now) (refresh_tokens w)),
             w\<lparr>faults := fs\<rparr>)"
  by (rule executeQuery_read [where f = "\<lambda>v. filter (\<lambda>r. rt_token r = sid \<and> rt_expires_at r > now) (refresh_tokens v)"])
     (simp_all add: select_refresh_token_def)

lemma select_user_by_id_read:
  "\<exists>fs. (\<exists>e. executeQuery (select_user_by_id uid) w = (Inl e, w\<lparr>faults := fs\<rparr>))
        \<or> executeQuery (select_user_by_id uid) w =
            (Inr (filter (\<lambda>u. u_id u = uid) (users w)), w\<lparr>faults := fs\<rparr>)"
  by (rule executeQuery_read [where f = "\<lambda>v. filter (\<lambda>u. u_id u = uid) (users v)"])
     (simp_all add: select_user_by_id_def)



lemma executeQuery_select_refresh_cases:
  "(\<exists>e w'. executeQuery (select_refresh_token now sid) w = (Inl e, w'))
   \<or> (\<exists>w'. executeQuery (select_refresh_token now sid) w =
         (Inr (filter (\<lambda>r. rt_token r = sid \<and> rt_expires_at r > now) (refresh_tokens w)), w'))"
  by (simp add: executeQuery_def pool_connect_def io_call_def select_refresh_token_def
      split: list.splits bool.splits)

subsection \<open>The example worlds\<close>

lemmas example_defs =
  cfg0_def vd0_def alice_def bob_def no_tables_def base_world_def credentials_def bearer_def
  presenting_def alice_session_def logged_in_def alice_access_def alice_refresh_def
  bob_world_def bob_access_def

lemma healthy_examples: "healthy base_world" "healthy logged_in" "healthy bob_world"
  by (simp_all add: healthy_def example_defs)

lemma alice_logs_in:
  "login_route cfg0 vd0 100 ''s1'' base_world (credentials ''a@b.com'' ''Secur3!Pass'') =
     (\<lparr>status = 200, success = True, err = None, message = Some ''Login successful'',
       r_data = LoginData \<lparr>uv_id = ''u1'', uv_email = ''a@b.com'', uv_firstName = None,
                          uv_lastName = None\<rparr> alice_access alice_refresh,
       timestamp = Some 100\<rparr>, logged_in)"
  by (simp add: login_route_def authRateLimit_def incrementRateLimit_def getClient_def
      redis_INCR_def redis_EXPIRE_def io_call_def redis_lookup_def incoming_def
      login_handler_def executeQuery_def pool_connect_def select_user_by_email_def
      comparePassword.simps setSession_def setCache_def redis_SETEX_def
      insert_refresh_token_def generateTokens_def jwt_sign_def example_defs)

subsection \<open>The access-token gate\<close>

text \<open>
  C2. For a request that carries a bearer token: when \<^verbatim>\<open>jwt.verify\<close> fails, the gate
  answers 401 "Invalid token"; when the token verifies and no session is live under its
  session id, it answers 401 "Invalid session"; when the session is live and the user row
  is missing or inactive, it answers 401 "User not found or inactive" and deletes the
  session from the cache store; otherwise it attaches the resolved user to the request
  and lets the request proceed. The last two cases are stated for a healthy world: the
  user query must return.
\<close>

theorem validateToken_gate:
  assumes hdr: "authorization req = Bearer tok" and nonempty: "tok \<noteq> Opaque []"
  shows
    "(\<forall>e. jwt_verify tok (JWT_SECRET cfg) now = Inl e \<longrightarrow>
         validateToken cfg now w req =
           (Respond (failure 401 ''Invalid token'' ''Token is invalid or expired''), w))
     \<and> (\<forall>d. jwt_verify tok (JWT_SECRET cfg) now = Inr d
           \<and> redis_lookup now w (''session:'' @ c_sessionId d) = None \<longrightarrow>
         fst (validateToken cfg now w req) =
           Respond (failure 401 ''Invalid session'' ''Session expired or invalid''))
     \<and> (\<forall>d s. jwt_verify tok (JWT_SECRET cfg) now = Inr d
           \<and> map_option rvalue (redis_lookup now w (''session:'' @ c_sessionId d)) = Some (RSession s)
           \<and> healthy w
           \<and> (case find (\<lambda>u. u_id u = c_userId d) (users w) of
                 None \<Rightarrow> True | Some row \<Rightarrow> \<not> u_is_active row) \<longrightarrow>
         validateToken cfg now w req =
           (Respond (failure 401 ''User not found or inactive''
                       ''User account is inactive or deleted''),
            w\<lparr>redis := (redis w)(''session:'' @ c_sessionId d := None)\<rparr>))
     \<and> (\<forall>d s row. jwt_verify tok (JWT_SECRET cfg) now = Inr d
           \<and> map_option rvalue (redis_lookup now w (''session:'' @ c_sessionId d)) = Some (RSession s)
           \<and> healthy w
           \<and> find (\<lambda>u. u_id u = c_userId d) (users w) = Some row \<and> u_is_active row \<longrightarrow>
         validateToken cfg now w req =
           (Next (req\<lparr>user := Some \<lparr>ru_id = c_userId d, ru_sessionId = c_sessionId d,
                                    ru_email = u_email row, ru_firstName = u_first_name row,
                                    ru_lastName = u_last_name row\<rparr>\<rparr>), w))"
proof (intro conjI allI impI)
  fix e assume "jwt_verify tok (JWT_SECRET cfg) now = Inl e"
  then show "validateToken cfg now w req =
           (Respond (failure 401 ''Invalid token'' ''Token is invalid or expired''), w)"
    using hdr nonempty by (simp add: validateToken_def)
next
  fix d assume a: "jwt_verify tok (JWT_SECRET cfg) now = Inr d
           \<and> redis_lookup now w (''session:'' @ c_sessionId d) = None"
  then have "fst (getSession now (c_sessionId d) w) = None"
    by (simp add: getSession_absent)
  then obtain w1 where "getSession now (c_sessionId d) w = (None, w1)"
    by (cases "getSession now (c_sessionId d) w") simp
  then show "fst (validateToken cfg now w req) =
           Respond (failure 401 ''Invalid session'' ''Session expired or invalid'')"
    using hdr nonempty a by (simp add: validateToken_def)
next
  fix d s
  assume a: "jwt_verify tok (JWT_SECRET cfg) now = Inr d
           \<and> map_option rvalue (redis_lookup now w (''session:'' @ c_sessionId d)) = Some (RSession s)
           \<and> healthy w
           \<and> (case find (\<lambda>u. u_id u = c_userId d) (users w) of
                 None \<Rightarrow> True | Some row \<Rightarrow> \<not> u_is_active row)"
  then have h: "healthy w" by simp
  have sess: "getSession now (c_sessionId d) w = (Some (RSession s), w)"
    using a h by (simp add: getSession_def healthy_getCache)
  have q: "executeQuery (select_user_by_id (c_userId d)) w =
             (Inr (filter (\<lambda>u. u_id u = c_userId d) (users w)), w)"
    using h by (simp add: healthy_executeQuery select_user_by_id_def)
  have del: "deleteSession (c_sessionId d) w =
               w\<lparr>redis := (redis w)(''session:'' @ c_sessionId d := None)\<rparr>"
    using h by (simp add: deleteSession_def healthy_deleteCache)
  show "validateToken cfg now w req =
           (Respond (failure 401 ''User not found or inactive''
                       ''User account is inactive or deleted''),
            w\<lparr>redis := (redis w)(''session:'' @ c_sessionId d := None)\<rparr>)"
  proof (cases "find (\<lambda>u. u_id u = c_userId d) (users w)")
    case None
    then have "filter (\<lambda>u. u_id u = c_userId d) (users w) = []" by (rule filter_find_None)
    then show ?thesis
      using hdr nonempty a sess q del by (simp add: validateToken_def)
  next
    case (Some row)
    then obtain ys where "filter (\<lambda>u. u_id u = c_userId d) (users w) = row # ys"
      using filter_find_Some by fastforce
    moreover have "\<not> u_is_active row" using a Some by simp
    ultimately show ?thesis
      using hdr nonempty a sess q del by (simp add: validateToken_def)
  qed
next
  fix d s row
  assume a: "jwt_verify tok (JWT_SECRET cfg) now = Inr d
           \<and> map_option rvalue (redis_lookup now w (''session:'' @ c_sessionId d)) = Some (RSession s)
           \<and> healthy w
           \<and> find (\<lambda>u. u_id u = c_userId d) (users w) = Some row \<and> u_is_active row"
  then have h: "healthy w" by simp
  have sess: "getSession now (c_sessionId d) w = (Some (RSession s), w)"
    using a h by (simp add: getSession_def healthy_getCache)
  have q: "executeQuery (select_user_by_id (c_userId d)) w =
             (Inr (filter (\<lambda>u. u_id u = c_userId d) (users w)), w)"
    using h by (simp add: healthy_executeQuery select_user_by_id_def)
  obtain ys where "filter (\<lambda>u. u_id u = c_userId d) (users w) = row # ys"
    using a filter_find_Some by fastforce
  then show "validateToken cfg now w req =
           (Next (req\<lparr>user := Some \<lparr>ru_id = c_userId d, ru_sessionId = c_sessionId d,
                                    ru_email = u_email row, ru_firstName = u_first_name row,
                                    ru_lastName = u_last_name row\<rparr>\<rparr>), w)"
    using hdr nonempty a sess q by (simp add: validateToken_def)
qed

theorem validateToken_gate_witness:
  "validateToken cfg0 200 logged_in (incoming (bearer (Signed ''forged'' ''u1'' ''s1'' 1000))) =
     (Respond (failure 401 ''Invalid token'' ''Token is invalid or expired''), logged_in)
   \<and> fst (validateToken cfg0 200 logged_in
             (incoming (bearer (Signed ''access-secret'' ''u1'' ''gone'' 1000)))) =
       Respond (failure 401 ''Invalid session'' ''Session expired or invalid'')
   \<and> validateToken cfg0 200 bob_world (incoming (bearer bob_access)) =
       (Respond (failure 401 ''User not found or inactive''
                   ''User account is inactive or deleted''),
        bob_world\<lparr>redis := (redis bob_world)(''session:s2'' := None)\<rparr>)
   \<and> validateToken cfg0 200 logged_in (incoming (bearer alice_access)) =
       (Next (incoming (bearer alice_access)
                \<lparr>user := Some \<lparr>ru_id = ''u1'', ru_sessionId = ''s1'', ru_email = ''a@b.com'',
                                ru_firstName = ''A'', ru_lastName = ''B''\<rparr>\<rparr>), logged_in)"
proof -
  have 1: "validateToken cfg0 200 logged_in (incoming (bearer (Signed ''forged'' ''u1'' ''s1'' 1000))) =
     (Respond (failure 401 ''Invalid token'' ''Token is invalid or expired''), logged_in)"
    using validateToken_gate [where req = "incoming (bearer (Signed ''forged'' ''u1'' ''s1'' 1000))"
        and tok = "Signed ''forged'' ''u1'' ''s1'' 1000" and cfg = cfg0 and now = 200
        and w = logged_in]
    by (simp add: incoming_def bearer_def cfg0_def)
  have 2: "fst (validateToken cfg0 200 logged_in
             (incoming (bearer (Signed ''access-secret'' ''u1'' ''gone'' 1000)))) =
       Respond (failure 401 ''Invalid session'' ''Session expired or invalid'')"
    using validateToken_gate [where req = "incoming (bearer (Signed ''access-secret'' ''u1'' ''gone'' 1000))"
        and tok = "Signed ''access-secret'' ''u1'' ''gone'' 1000" and cfg = cfg0 and now = 200
        and w = logged_in]
    by (simp add: incoming_def bearer_def cfg0_def redis_lookup_def logged_in_def)
  have 3: "validateToken cfg0 200 bob_world (incoming (bearer bob_access)) =
       (Respond (failure 401 ''User not found or inactive''
                   ''User account is inactive or deleted''),
        bob_world\<lparr>redis := (redis bob_world)(''session:s2'' := None)\<rparr>)"
    using validateToken_gate [where req = "incoming (bearer bob_access)"
        and tok = bob_access and cfg = cfg0 and now = 200 and w = bob_world]
      healthy_examples(3)
    by (simp add: incoming_def bearer_def cfg0_def bob_access_def redis_lookup_def)
       (simp add: bob_world_def alice_def bob_def)
  have 4: "validateToken cfg0 200 logged_in (incoming (bearer alice_access)) =
       (Next (incoming (bearer alice_access)
                \<lparr>user := Some \<lparr>ru_id = ''u1'', ru_sessionId = ''s1'', ru_email = ''a@b.com'',
                                ru_firstName = ''A'', ru_lastName = ''B''\<rparr>\<rparr>), logged_in)"
    using validateToken_gate [where req = "incoming (bearer alice_access)"
        and tok = alice_access and cfg = cfg0 and now = 200 and w = logged_in]
      healthy_examples(2)
    by (simp add: incoming_def bearer_def cfg0_def alice_access_def redis_lookup_def)
       (simp add: logged_in_def alice_def bob_def)
  from 1 2 3 4 show ?thesis by blast
qed

subsection \<open>The profile endpoint\<close>

text \<open>
  C10. \<^verbatim>\<open>GET /profile\<close> verifies the token's signature and expiry and reads the user
  row; it never reads the cache store. Whenever the token verifies under the access
  secret and the user row exists (and the database answers), the profile is returned
  with status 200 whatever the cache store holds: with the session deleted, with any
  other content, and with the cache client unset.
\<close>

theorem profile_ignores_session:
  assumes hdr: "authorization h = Bearer tok"
    and verified: "jwt_verify tok (JWT_SECRET cfg) now = Inr d"
    and db: "db_pool w" "faults w = []"
    and row: "find (\<lambda>u. u_id u = c_userId d) (users w) = Some row"
  shows "\<forall>store client.
           profile_route cfg now (w\<lparr>redis := store, redis_client := client\<rparr>) h =
             (\<lparr>status = 200, success = True, err = None, message = None,
               r_data = ProfileData \<lparr>uv_id = u_id row, uv_email = u_email row,
                                   uv_firstName = None, uv_lastName = None\<rparr> (u_created_at row),
               timestamp = Some now\<rparr>,
              w\<lparr>redis := store, redis_client := client\<rparr>)"
proof (intro allI)
  fix store client
  let ?w = "w\<lparr>redis := store, redis_client := client\<rparr>"
  have q: "executeQuery (select_user_by_id (c_userId d)) ?w =
             (Inr (filter (\<lambda>u. u_id u = c_userId d) (users w)), ?w)"
    using db by (simp add: db_ok_executeQuery select_user_by_id_def)
  obtain ys where "filter (\<lambda>u. u_id u = c_userId d) (users w) = row # ys"
    using row filter_find_Some by fastforce
  then show "profile_route cfg now ?w h =
             (\<lparr>status = 200, success = True, err = None, message = None,
               r_data = ProfileData \<lparr>uv_id = u_id row, uv_email = u_email row,
                                   uv_firstName = None, uv_lastName = None\<rparr> (u_created_at row),
               timestamp = Some now\<rparr>, ?w)"
    using hdr verified q by (simp add: profile_route_def)
qed

theorem profile_ignores_session_witness:
  "profile_route cfg0 200 (logged_in\<lparr>redis := Map.empty, redis_client := False\<rparr>)
       (bearer alice_access) =
     (\<lparr>status = 200, success = True, err = None, message = None,
       r_data = ProfileData \<lparr>uv_id = ''u1'', uv_email = ''a@b.com'',
                           uv_firstName = None, uv_lastName = None\<rparr> 7,
       timestamp = Some 200\<rparr>,
      logged_in\<lparr>redis := Map.empty, redis_client := False\<rparr>)"
proof -
  have prem: "authorization (bearer alice_access) = Bearer alice_access"
    "jwt_verify alice_access (JWT_SECRET cfg0) 200 = Inr \<lparr>c_userId = ''u1'', c_sessionId = ''s1''\<rparr>"
    "db_pool logged_in" "faults logged_in = []"
    "find (\<lambda>u. u_id u = c_userId \<lparr>c_userId = ''u1'', c_sessionId = ''s1''\<rparr>) (users logged_in)
       = Some alice"
    by (simp_all add: example_defs)
  from profile_ignores_session [OF prem, rule_format, where store = Map.empty and client = False]
  show ?thesis by (simp add: alice_def)
qed

lemma gate_rejects_where_profile_answers:
  "fst (validateToken cfg0 200 (logged_in\<lparr>redis := Map.empty\<rparr>) (incoming (bearer alice_access)))
     = Respond (failure 401 ''Invalid session'' ''Session expired or invalid'')"
  by (simp add: validateToken_def incoming_def getSession_def getCache_def getClient_def
      redis_GET_def io_call_def redis_lookup_def example_defs)

subsection \<open>Refresh\<close>

text \<open>
  C3. A refresh token whose signature verifies under the refresh secret, but for whose
  session id the table \<^verbatim>\<open>refresh_tokens\<close> holds no row that expires after now, is
  answered 401 "Invalid refresh token" when the database answers; and whatever the
  database does, the response is not a success and carries no access token.
\<close>

theorem refresh_requires_live_row:
  assumes body: "body_refreshToken h = Some tok"
    and verified: "jwt_verify tok (JWT_REFRESH_SECRET cfg) now = Inr d"
    and norow: "\<forall>r \<in> set (refresh_tokens w). rt_token r = c_sessionId d \<longrightarrow> rt_expires_at r \<le> now"
  shows "(db_pool w \<and> faults w = [] \<longrightarrow>
            refresh_route cfg now w h =
              (failure 401 ''Invalid refresh token'' ''Refresh token not found or expired'', w))
         \<and> status (fst (refresh_route cfg now w h)) \<noteq> 200
         \<and> (\<forall>t. r_data (fst (refresh_route cfg now w h)) \<noteq> RefreshData t)"
proof -
  have ne: "tok \<noteq> Opaque []" using verified by auto
  have empty: "filter (\<lambda>r. rt_token r = c_sessionId d \<and> rt_expires_at r > now) (refresh_tokens w) = []"
    using norow by (auto simp: filter_empty_conv)
  have healthy_case: "db_pool w \<and> faults w = [] \<longrightarrow>
            refresh_route cfg now w h =
              (failure 401 ''Invalid refresh token'' ''Refresh token not found or expired'', w)"
  proof
    assume "db_pool w \<and> faults w = []"
    then have "executeQuery (select_refresh_token now (c_sessionId d)) w = (Inr [], w)"
      using empty by (simp add: db_ok_executeQuery select_refresh_token_def)
    then show "refresh_route cfg now w h =
              (failure 401 ''Invalid refresh token'' ''Refresh token not found or expired'', w)"
      using body verified ne by (simp add: refresh_route_def)
  qed
  from executeQuery_select_refresh_cases [of now "c_sessionId d" w]
  have any_case: "status (fst (refresh_route cfg now w h)) \<noteq> 200
         \<and> (\<forall>t. r_data (fst (refresh_route cfg now w h)) \<noteq> RefreshData t)"
  proof
    assume "\<exists>e w'. executeQuery (select_refresh_token now (c_sessionId d)) w = (Inl e, w')"
    then show ?thesis
      using body verified ne by (auto simp: refresh_route_def failure_def)
  next
    assume "\<exists>w'. executeQuery (select_refresh_token now (c_sessionId d)) w =
         (Inr (filter (\<lambda>r. rt_token r = c_sessionId d \<and> rt_expires_at r > now) (refresh_tokens w)), w')"
    then show ?thesis
      using body verified ne empty by (auto simp: refresh_route_def failure_def)
  qed
  from healthy_case any_case show ?thesis by blast
qed

theorem refresh_requires_live_row_witness:
  "refresh_route cfg0 200 base_world (presenting alice_refresh) =
     (failure 401 ''Invalid refresh token'' ''Refresh token not found or expired'', base_world)
   \<and> refresh_route cfg0 200
        (logged_in\<lparr>refresh_tokens :=
                     [\<lparr>rt_user_id = ''u1'', rt_token = ''s1'', rt_expires_at = 150\<rparr>]\<rparr>)
        (presenting alice_refresh) =
     (failure 401 ''Invalid refresh token'' ''Refresh token not found or expired'',
      logged_in\<lparr>refresh_tokens :=
                  [\<lparr>rt_user_id = ''u1'', rt_token = ''s1'', rt_expires_at = 150\<rparr>]\<rparr>)
   \<and> status (fst (refresh_route cfg0 200 (base_world\<lparr>db_pool := False\<rparr>)
                      (presenting alice_refresh))) \<noteq> 200"
proof -
  let ?d = "\<lparr>c_userId = ''u1'', c_sessionId = ''s1''\<rparr>"
  let ?expired = "logged_in\<lparr>refresh_tokens :=
                     [\<lparr>rt_user_id = ''u1'', rt_token = ''s1'', rt_expires_at = 150\<rparr>]\<rparr>"
  have tok: "body_refreshToken (presenting alice_refresh) = Some alice_refresh"
    "jwt_verify alice_refresh (JWT_REFRESH_SECRET cfg0) 200 = Inr ?d"
    by (simp_all add: example_defs)
  have absent: "\<forall>r \<in> set (refresh_tokens base_world). rt_token r = c_sessionId ?d \<longrightarrow> rt_expires_at r \<le> 200"
    by (simp add: base_world_def)
  have absent': "\<forall>r \<in> set (refresh_tokens (base_world\<lparr>db_pool := False\<rparr>)).
                   rt_token r = c_sessionId ?d \<longrightarrow> rt_expires_at r \<le> 200"
    by (simp add: base_world_def)
  have expired: "\<forall>r \<in> set (refresh_tokens ?expired). rt_token r = c_sessionId ?d \<longrightarrow> rt_expires_at r \<le> 200"
    by simp
  have ok: "db_pool base_world \<and> faults base_world = []" "db_pool ?expired \<and> faults ?expired = []"
    by (simp_all add: base_world_def logged_in_def)
  from refresh_requires_live_row [OF tok absent] refresh_requires_live_row [OF tok expired]
    refresh_requires_live_row [OF tok absent'] ok
  show ?thesis by blast
qed

text \<open>
  C9. A successful refresh leaves the cache store (the session), the table
  \<^verbatim>\<open>refresh_tokens\<close> and the other tables as they were, and its response carries one
  token only: a new access token for the same user and session, signed with the access
  secret and valid for 15 minutes. No refresh token is issued.
\<close>

theorem refresh_mints_access_token_only:
  assumes run: "refresh_route cfg now w h = (r, w')" and ok: "status r = 200"
  shows "redis w' = redis w \<and> refresh_tokens w' = refresh_tokens w \<and> users w' = users w
         \<and> tables w' = tables w
         \<and> (\<exists>tok d. body_refreshToken h = Some tok
               \<and> jwt_verify tok (JWT_REFRESH_SECRET cfg) now = Inr d
               \<and> r = \<lparr>status = 200, success = True, err = None,
                       message = Some ''Token refreshed successfully'',
                       r_data = RefreshData
                         (Signed (JWT_SECRET cfg) (c_userId d) (c_sessionId d) (now + 15 * 60)),
                       timestamp = Some now\<rparr>)"
proof -
  obtain tok where tok: "body_refreshToken h = Some tok" "tok \<noteq> Opaque []"
    using run ok
    by (cases "body_refreshToken h")
       (auto simp: refresh_route_def validation_failed_def split: if_splits)
  obtain d where d: "jwt_verify tok (JWT_REFRESH_SECRET cfg) now = Inr d"
    using run ok tok
    by (cases "jwt_verify tok (JWT_REFRESH_SECRET cfg) now")
       (auto simp: refresh_route_def failure_def)
  obtain fs1 where q1:
    "(\<exists>e. executeQuery (select_refresh_token now (c_sessionId d)) w = (Inl e, w\<lparr>faults := fs1\<rparr>))
     \<or> executeQuery (select_refresh_token now (c_sessionId d)) w =
          (Inr (filter (\<lambda>r. rt_token r = c_sessionId d \<and> rt_expires_at r > now) (refresh_tokens w)),
           w\<lparr>faults := fs1\<rparr>)"
    using select_refresh_token_read by blast
  obtain fs2 where q2:
    "(\<exists>e. executeQuery (select_user_by_id (c_userId d)) (w\<lparr>faults := fs1\<rparr>)
            = (Inl e, w\<lparr>faults := fs1\<rparr>\<lparr>faults := fs2\<rparr>))
     \<or> executeQuery (select_user_by_id (c_userId d)) (w\<lparr>faults := fs1\<rparr>) =
          (Inr (filter (\<lambda>u. u_id u = c_userId d) (users (w\<lparr>faults := fs1\<rparr>))),
           w\<lparr>faults := fs1\<rparr>\<lparr>faults := fs2\<rparr>)"
    using select_user_by_id_read by blast
  from q1 have r1: "executeQuery (select_refresh_token now (c_sessionId d)) w =
          (Inr (filter (\<lambda>r. rt_token r = c_sessionId d \<and> rt_expires_at r > now) (refresh_tokens w)),
           w\<lparr>faults := fs1\<rparr>)"
    using run ok tok d by (auto simp: refresh_route_def failure_def)
  have nonempty: "filter (\<lambda>r. rt_token r = c_sessionId d \<and> rt_expires_at r > now) (refresh_tokens w) \<noteq> []"
    using run ok tok d r1 by (auto simp: refresh_route_def failure_def split: if_splits)
  from q2 have r2: "executeQuery (select_user_by_id (c_userId d)) (w\<lparr>faults := fs1\<rparr>) =
          (Inr (filter (\<lambda>u. u_id u = c_userId d) (users w)), w\<lparr>faults := fs2\<rparr>)"
    using run ok tok d r1 nonempty by (auto simp: refresh_route_def failure_def)
  have final: "r = \<lparr>status = 200, success = True, err = None,
                       message = Some ''Token refreshed successfully'',
                       r_data = RefreshData
                         (Signed (JWT_SECRET cfg) (c_userId d) (c_sessionId d) (now + 15 * 60)),
                       timestamp = Some now\<rparr> \<and> w' = w\<lparr>faults := fs2\<rparr>"
    using run ok tok d r1 nonempty r2
    by (auto simp: refresh_route_def failure_def jwt_sign_def split: list.splits if_splits)
  then show ?thesis using tok d by simp
qed

theorem refresh_mints_access_token_only_witness:
  "refresh_route cfg0 200 (logged_in\<lparr>faults := [False, False, False, False, True]\<rparr>)
       (presenting alice_refresh) =
     (\<lparr>status = 200, success = True, err = None,
       message = Some ''Token refreshed successfully'',
       r_data = RefreshData (Signed ''access-secret'' ''u1'' ''s1'' 1100),
       timestamp = Some 200\<rparr>, logged_in\<lparr>faults := [True]\<rparr>)
   \<and> redis (logged_in\<lparr>faults := [True]\<rparr>) = redis logged_in
   \<and> refresh_tokens (logged_in\<lparr>faults := [True]\<rparr>) = refresh_tokens logged_in"
proof -
  have run: "refresh_route cfg0 200 (logged_in\<lparr>faults := [False, False, False, False, True]\<rparr>)
       (presenting alice_refresh) =
     (\<lparr>status = 200, success = True, err = None,
       message = Some ''Token refreshed successfully'',
       r_data = RefreshData (Signed ''access-secret'' ''u1'' ''s1'' 1100),
       timestamp = Some 200\<rparr>, logged_in\<lparr>faults := [True]\<rparr>)"
    by (simp add: refresh_route_def executeQuery_def pool_connect_def io_call_def
        select_refresh_token_def select_user_by_id_def jwt_sign_def example_defs)
  from refresh_mints_access_token_only [OF run] run show ?thesis by simp
qed

subsection \<open>Login\<close>

lemma login_route_unfold:
  "login_route cfg vd now sid w h =
     (case incrementRateLimit now (''auth_rate_limit:'' @ ip h) (15 * 60 * 1000) w of
        (current, w') \<Rightarrow>
          if current > 5 then
            (failure 429 ''Rate limit exceeded''
               ''Too many authentication attempts. Please try again later.'', w')
          else login_handler cfg vd now sid w' (incoming h))"
  by (simp add: login_route_def authRateLimit_def incoming_def split: prod.splits)






lemma incrementRateLimit_counts:
  assumes c: "redis_client w" and f: "faults w = []"
  shows "incrementRateLimit now key ms w =
     (case redis_lookup now w key of
        None \<Rightarrow>
          (1, w\<lparr>redis := (redis w)(key \<mapsto>
                 \<lparr>rvalue = RCounter 1, rexpires = Some (now + ms div 1000)\<rparr>)\<rparr>)
      | Some e \<Rightarrow>
          (case rvalue e of
             RCounter n \<Rightarrow>
               (n + 1, w\<lparr>redis := (redis w)(key \<mapsto>
                  e\<lparr>rvalue := RCounter (n + 1),
                    rexpires := (if n = 0 then Some (now + ms div 1000) else rexpires e)\<rparr>)\<rparr>)
           | _ \<Rightarrow> (0, w)))"
proof (cases "redis_lookup now w key")
  case None
  then show ?thesis
    using c f
    by (simp add: incrementRateLimit_def getClient_def redis_INCR_def redis_EXPIRE_def
        io_call_def redis_lookup_def)
next
  case (Some e)
  then show ?thesis
    using c f
    by (cases "rvalue e")
       (auto simp: incrementRateLimit_def getClient_def redis_INCR_def redis_EXPIRE_def
        io_call_def redis_lookup_def split: option.splits if_splits)
qed










subsection \<open>Logout\<close>

text \<open>
  The route \<^verbatim>\<open>POST /logout\<close> runs \<^verbatim>\<open>logout\<close> on a request whose \<^verbatim>\<open>user\<close> nothing has
  set, so the middleware skips its clean-up: the route answers 200 and changes nothing.
\<close>

lemma logout_route_changes_nothing:
  "logout_route now w h =
     (\<lparr>status = 200, success = True, err = None, message = Some ''Logout successful'',
       r_data = NoData, timestamp = Some now\<rparr>, w)"
  by (simp add: logout_route_def logout_def incoming_def)

text \<open>
  C1. Logout is meant to delete the session and the refresh-token row, so that the old
  access token is rejected from then on. Through the route it does not: after Alice's
  logout her session is still live, her refresh-token row is still stored, and the gate
  still lets her old access token through.
\<close>

theorem logout_route_keeps_session:
  "logout_route 200 logged_in (bearer alice_access) =
     (\<lparr>status = 200, success = True, err = None, message = Some ''Logout successful'',
       r_data = NoData, timestamp = Some 200\<rparr>, logged_in)
   \<and> map_option rvalue (redis_lookup 200 (snd (logout_route 200 logged_in (bearer alice_access)))
        ''session:s1'') = Some (RSession alice_session)
   \<and> refresh_tokens (snd (logout_route 200 logged_in (bearer alice_access))) =
       [\<lparr>rt_user_id = ''u1'', rt_token = ''s1'', rt_expires_at = 604900\<rparr>]
   \<and> validateToken cfg0 200 (snd (logout_route 200 logged_in (bearer alice_access)))
        (incoming (bearer alice_access)) =
       (Next (incoming (bearer alice_access)
                \<lparr>user := Some \<lparr>ru_id = ''u1'', ru_sessionId = ''s1'', ru_email = ''a@b.com'',
                                ru_firstName = ''A'', ru_lastName = ''B''\<rparr>\<rparr>), logged_in)"
  by (simp add: logout_route_changes_nothing)
     (simp add: validateToken_def incoming_def getSession_def getCache_def getClient_def
      redis_GET_def io_call_def redis_lookup_def executeQuery_def pool_connect_def
      select_user_by_id_def example_defs)

text \<open>What the middleware does once \<^verbatim>\<open>req.user\<close> is set.\<close>

lemma logout_with_user:
  assumes "healthy w" and "user req = Some u" and "ru_sessionId u \<noteq> []"
  shows "logout w req =
           (Next req,
            w\<lparr>redis := (redis w)(''session:'' @ ru_sessionId u := None),
              refresh_tokens :=
                filter (\<lambda>r. \<not> (rt_user_id r = ru_id u \<and> rt_token r = ru_sessionId u))
                  (refresh_tokens w)\<rparr>)"
  using assms
  by (simp add: logout_def deleteSession_def healthy_deleteCache healthy_executeQuery
      delete_refresh_token_def)

lemma logout_with_user_then_gate_rejects:
  assumes "healthy w" and "user req = Some u" and "ru_sessionId u \<noteq> []"
    and "authorization req' = Bearer tok"
    and "jwt_verify tok (JWT_SECRET cfg) now = Inr \<lparr>c_userId = ru_id u, c_sessionId = ru_sessionId u\<rparr>"
  shows "fst (validateToken cfg now (snd (logout w req)) req') =
           Respond (failure 401 ''Invalid session'' ''Session expired or invalid'')"
proof -
  have ne: "tok \<noteq> Opaque []" using assms(5) by auto
  have "redis_lookup now (snd (logout w req)) (''session:'' @ ru_sessionId u) = None"
    using assms(1-3) by (simp add: logout_with_user redis_lookup_def)
  then have "fst (getSession now (ru_sessionId u) (snd (logout w req))) = None"
    by (rule getSession_absent)
  then obtain w1 where "getSession now (ru_sessionId u) (snd (logout w req)) = (None, w1)"
    by (cases "getSession now (ru_sessionId u) (snd (logout w req))") simp
  then show ?thesis
    using assms(4,5) ne by (simp add: validateToken_def)
qed

lemma logout_with_user_twice:
  assumes "healthy w" and "user req = Some u" and "ru_sessionId u \<noteq> []"
  shows "logout (snd (logout w req)) req = logout w req"
proof -
  let ?w1 = "w\<lparr>redis := (redis w)(''session:'' @ ru_sessionId u := None),
              refresh_tokens :=
                filter (\<lambda>r. \<not> (rt_user_id r = ru_id u \<and> rt_token r = ru_sessionId u))
                  (refresh_tokens w)\<rparr>"
  have h1: "healthy ?w1" using assms(1) by (simp add: healthy_def)
  show ?thesis
    using assms logout_with_user [OF h1 assms(2,3)]
    by (simp add: logout_with_user)
qed

subsection \<open>Rate limit\<close>

text \<open>With a live counter \<open>n \<ge> 1\<close> that expires at \<open>T\<close>, attempt number \<open>i\<close> made before
  \<open>T\<close> sees the count \<open>n + 1 + i\<close>.\<close>

lemma attempts_from_counter:
  assumes "redis_client w" and "faults w = []"
    and "redis w (''auth_rate_limit:'' @ a) = Some \<lparr>rvalue = RCounter n, rexpires = Some T\<rparr>"
    and "1 \<le> n"
    and "\<forall>(t, r) \<in> set attempts. ip r = a \<and> t < T"
  shows "fst (auth_attempts w attempts) =
           map (\<lambda>i. if n + 1 + int i \<le> 5 then None else Some 429) [0 ..< length attempts]"
  using assms
proof (induction attempts arbitrary: w n)
  case Nil
  then show ?case by simp
next
  case (Cons x rest)
  obtain t req where x: "x = (t, req)" by (cases x)
  have ipr: "ip req = a" and tT: "t < T" using Cons.prems(5) x by auto
  let ?key = "''auth_rate_limit:'' @ a"
  let ?w1 = "w\<lparr>redis := (redis w)(?key \<mapsto> \<lparr>rvalue = RCounter (n + 1), rexpires = Some T\<rparr>)\<rparr>"
  have look: "redis_lookup t w ?key = Some \<lparr>rvalue = RCounter n, rexpires = Some T\<rparr>"
    using Cons.prems(3) tT by (simp add: redis_lookup_def)
  have inc: "incrementRateLimit t ?key (15 * 60 * 1000) w = (n + 1, ?w1)"
    using Cons.prems(1,2,4) look by (simp add: incrementRateLimit_counts)
  have gate: "authRateLimit t w req =
                (if n + 1 > 5 then Respond (failure 429 ''Rate limit exceeded''
                        ''Too many authentication attempts. Please try again later.'')
                 else Next req, ?w1)"
    using inc ipr by (simp add: authRateLimit_def)
  have IH: "fst (auth_attempts ?w1 rest) =
           map (\<lambda>i. if (n + 1) + 1 + int i \<le> 5 then None else Some 429) [0 ..< length rest]"
    using Cons.prems by (intro Cons.IH) auto
  have shift: "map (\<lambda>i. if n + 1 + int i \<le> 5 then None else Some (429::nat)) [0 ..< Suc (length rest)]
      = (if n + 1 \<le> 5 then None else Some 429)
        # map (\<lambda>i. if (n + 1) + 1 + int i \<le> 5 then None else Some 429) [0 ..< length rest]"
    by (simp only: map_upt_Suc) (simp add: algebra_simps)
  show ?case
    using gate IH shift x
    by (cases "auth_attempts ?w1 rest") (auto simp: failure_def)
qed

lemma first_five_pass:
  assumes client: "redis_client w" and nofault: "faults w = []"
    and fresh: "redis_lookup t0 w (''auth_rate_limit:'' @ a) = None"
    and first: "ip r0 = a"
    and window: "\<forall>(t, r) \<in> set rest. ip r = a \<and> t < t0 + 900"
  shows "fst (auth_attempts w ((t0, r0) # rest)) =
           map (\<lambda>i. if i < 5 then None else Some 429) [0 ..< Suc (length rest)]"
proof -
  let ?key = "''auth_rate_limit:'' @ a"
  let ?w1 = "w\<lparr>redis := (redis w)(?key \<mapsto> \<lparr>rvalue = RCounter 1, rexpires = Some (t0 + 900)\<rparr>)\<rparr>"
  have inc: "incrementRateLimit t0 ?key (15 * 60 * 1000) w = (1, ?w1)"
    using client nofault fresh by (simp add: incrementRateLimit_counts)
  have gate: "authRateLimit t0 w r0 = (Next r0, ?w1)"
    using inc first by (simp add: authRateLimit_def)
  have rest: "fst (auth_attempts ?w1 rest) =
           map (\<lambda>i. if 1 + 1 + int i \<le> 5 then None else Some 429) [0 ..< length rest]"
    using client nofault window by (intro attempts_from_counter [where T = "t0 + 900" and a = a]) auto
  have shift: "map (\<lambda>i. if i < 5 then None else Some (429::nat)) [0 ..< Suc (length rest)]
      = None # map (\<lambda>i. if 1 + 1 + int i \<le> 5 then None else Some 429) [0 ..< length rest]"
    by (simp only: map_upt_Suc) auto
  show ?thesis
    using gate rest shift by (cases "auth_attempts ?w1 rest") auto
qed


lemma rate_limited_login:
  assumes client: "redis_client w" and nofault: "faults w = []"
    and live: "redis_lookup now w (''auth_rate_limit:'' @ ip h) = Some e"
    and count: "rvalue e = RCounter n" and over: "5 \<le> n"
  shows "login_route cfg vd now sid w h =
           (failure 429 ''Rate limit exceeded''
              ''Too many authentication attempts. Please try again later.'',
            w\<lparr>redis := (redis w)(''auth_rate_limit:'' @ ip h \<mapsto> e\<lparr>rvalue := RCounter (n + 1)\<rparr>)\<rparr>)"
proof -
  have "incrementRateLimit now (''auth_rate_limit:'' @ ip h) (15 * 60 * 1000) w =
          (n + 1, w\<lparr>redis := (redis w)(''auth_rate_limit:'' @ ip h \<mapsto> e\<lparr>rvalue := RCounter (n + 1)\<rparr>)\<rparr>)"
    using client nofault live count over by (simp add: incrementRateLimit_counts)
  then show ?thesis using over by (simp add: login_route_unfold)
qed

lemma rate_limit_fails_open:
  assumes "\<not> redis_client w \<or> (\<exists>fs. faults w = True # fs)
           \<or> (\<exists>fs. faults w = False # True # fs
                    \<and> redis_lookup now w (''auth_rate_limit:'' @ ip req) = None)"
  shows "fst (authRateLimit now w req) = Next req"
proof -
  have "fst (incrementRateLimit now (''auth_rate_limit:'' @ ip req) (15 * 60 * 1000) w) = 0"
    using assms
    by (auto simp: incrementRateLimit_def getClient_def redis_INCR_def redis_EXPIRE_def
        io_call_def redis_lookup_def split: option.splits if_splits)
  then show ?thesis
    by (cases "incrementRateLimit now (''auth_rate_limit:'' @ ip req) (15 * 60 * 1000) w")
       (simp add: authRateLimit_def)
qed

text \<open>
  C5. Attempts from one address, whatever their credentials: when the first finds no
  live counter and the others come less than 900 seconds after it, the first five pass
  the gate and every later one is answered 429. An attempt that finds a live counter of
  five or more is answered 429 by the login route whatever its credentials, and no
  password is compared. When the cache client is unset, or INCR fails, or EXPIRE fails
  on a fresh counter, the gate lets the request pass.
\<close>

theorem auth_rate_limit_window:
  "(redis_client w \<and> faults w = []
      \<and> redis_lookup t0 w (''auth_rate_limit:'' @ a) = None
      \<and> ip r0 = a \<and> (\<forall>(t, r) \<in> set rest. ip r = a \<and> t < t0 + 900) \<longrightarrow>
    fst (auth_attempts w ((t0, r0) # rest)) =
      map (\<lambda>i. if i < 5 then None else Some 429) [0 ..< Suc (length rest)])
   \<and> (redis_client w \<and> faults w = []
        \<and> redis_lookup now w (''auth_rate_limit:'' @ ip h) = Some e
        \<and> rvalue e = RCounter n \<and> 5 \<le> n \<longrightarrow>
      login_route cfg vd now sid w h =
        (failure 429 ''Rate limit exceeded''
           ''Too many authentication attempts. Please try again later.'',
         w\<lparr>redis := (redis w)(''auth_rate_limit:'' @ ip h \<mapsto> e\<lparr>rvalue := RCounter (n + 1)\<rparr>)\<rparr>)
      \<and> password_compares (snd (login_route cfg vd now sid w h)) = password_compares w)
   \<and> (\<not> redis_client w \<or> (\<exists>fs. faults w = True # fs)
        \<or> (\<exists>fs. faults w = False # True # fs
                 \<and> redis_lookup now w (''auth_rate_limit:'' @ ip req) = None) \<longrightarrow>
      fst (authRateLimit now w req) = Next req)"
proof (intro conjI impI)
  assume "redis_client w \<and> faults w = []
      \<and> redis_lookup t0 w (''auth_rate_limit:'' @ a) = None
      \<and> ip r0 = a \<and> (\<forall>(t, r) \<in> set rest. ip r = a \<and> t < t0 + 900)"
  then show "fst (auth_attempts w ((t0, r0) # rest)) =
      map (\<lambda>i. if i < 5 then None else Some 429) [0 ..< Suc (length rest)]"
    by (intro first_five_pass [where a = a]) simp_all
next
  assume a: "redis_client w \<and> faults w = []
        \<and> redis_lookup now w (''auth_rate_limit:'' @ ip h) = Some e
        \<and> rvalue e = RCounter n \<and> 5 \<le> n"
  then show r: "login_route cfg vd now sid w h =
        (failure 429 ''Rate limit exceeded''
           ''Too many authentication attempts. Please try again later.'',
         w\<lparr>redis := (redis w)(''auth_rate_limit:'' @ ip h \<mapsto> e\<lparr>rvalue := RCounter (n + 1)\<rparr>)\<rparr>)"
    by (intro rate_limited_login) simp_all
  show "password_compares (snd (login_route cfg vd now sid w h)) = password_compares w"
    by (simp add: r)
next
  assume "\<not> redis_client w \<or> (\<exists>fs. faults w = True # fs)
        \<or> (\<exists>fs. faults w = False # True # fs
                 \<and> redis_lookup now w (''auth_rate_limit:'' @ ip req) = None)"
  then show "fst (authRateLimit now w req) = Next req"
    by (rule rate_limit_fails_open)
qed

theorem auth_rate_limit_window_witness:
  "fst (auth_attempts base_world
          [(100, incoming (credentials ''a@b.com'' ''guess1'')),
           (101, incoming (credentials ''a@b.com'' ''guess2'')),
           (102, incoming (credentials ''bob@b.com'' ''guess3'')),
           (500, incoming (credentials ''a@b.com'' ''guess4'')),
           (998, incoming (credentials ''a@b.com'' ''guess5'')),
           (999, incoming (credentials ''a@b.com'' ''Secur3!Pass'')),
           (999, incoming (credentials ''c@b.com'' ''guess7''))]) =
     [None, None, None, None, None, Some 429, Some 429]
   \<and> login_route cfg0 vd0 999 ''s9'' five_used (credentials ''a@b.com'' ''Secur3!Pass'') =
       (failure 429 ''Rate limit exceeded''
          ''Too many authentication attempts. Please try again later.'',
        base_world\<lparr>redis := [''auth_rate_limit:10.0.0.1'' \<mapsto>
                               \<lparr>rvalue = RCounter 6, rexpires = Some 1000\<rparr>]\<rparr>)
   \<and> password_compares
        (snd (login_route cfg0 vd0 999 ''s9'' five_used (credentials ''a@b.com'' ''Secur3!Pass'')))
       = 0
   \<and> fst (authRateLimit 999 (five_used\<lparr>redis_client := False\<rparr>)
             (incoming (credentials ''a@b.com'' ''guess'')))
       = Next (incoming (credentials ''a@b.com'' ''guess''))
   \<and> fst (authRateLimit 999 (five_used\<lparr>faults := [True]\<rparr>)
             (incoming (credentials ''a@b.com'' ''guess'')))
       = Next (incoming (credentials ''a@b.com'' ''guess''))"
proof -
  have ip: "ip (incoming (credentials e p)) = ''10.0.0.1''" "ip (credentials e p) = ''10.0.0.1''"
    for e p by (simp_all add: incoming_def credentials_def)
  have ok: "redis_client base_world" "faults base_world = []"
    "redis_lookup 100 base_world (''auth_rate_limit:'' @ ''10.0.0.1'') = None"
    by (simp_all add: base_world_def redis_lookup_def)
  have 1: "fst (auth_attempts base_world
          [(100, incoming (credentials ''a@b.com'' ''guess1'')),
           (101, incoming (credentials ''a@b.com'' ''guess2'')),
           (102, incoming (credentials ''bob@b.com'' ''guess3'')),
           (500, incoming (credentials ''a@b.com'' ''guess4'')),
           (998, incoming (credentials ''a@b.com'' ''guess5'')),
           (999, incoming (credentials ''a@b.com'' ''Secur3!Pass'')),
           (999, incoming (credentials ''c@b.com'' ''guess7''))]) =
     [None, None, None, None, None, Some 429, Some 429]"
    using auth_rate_limit_window [where w = base_world and ?t0.0 = 100 and a = "''10.0.0.1''"
        and ?r0.0 = "incoming (credentials ''a@b.com'' ''guess1'')"
        and rest = "[(101, incoming (credentials ''a@b.com'' ''guess2'')),
           (102, incoming (credentials ''bob@b.com'' ''guess3'')),
           (500, incoming (credentials ''a@b.com'' ''guess4'')),
           (998, incoming (credentials ''a@b.com'' ''guess5'')),
           (999, incoming (credentials ''a@b.com'' ''Secur3!Pass'')),
           (999, incoming (credentials ''c@b.com'' ''guess7''))]", THEN conjunct1] ok
    by (simp add: ip upt_rec del: auth_attempts.simps)
  have five: "redis_client five_used" "faults five_used = []"
    "redis_lookup 999 five_used (''auth_rate_limit:'' @ ip (credentials ''a@b.com'' ''Secur3!Pass''))
       = Some \<lparr>rvalue = RCounter 5, rexpires = Some 1000\<rparr>"
    by (simp_all add: five_used_def base_world_def redis_lookup_def ip)
  have 2: "login_route cfg0 vd0 999 ''s9'' five_used (credentials ''a@b.com'' ''Secur3!Pass'') =
       (failure 429 ''Rate limit exceeded''
          ''Too many authentication attempts. Please try again later.'',
        base_world\<lparr>redis := [''auth_rate_limit:10.0.0.1'' \<mapsto>
                               \<lparr>rvalue = RCounter 6, rexpires = Some 1000\<rparr>]\<rparr>)
   \<and> password_compares
        (snd (login_route cfg0 vd0 999 ''s9'' five_used (credentials ''a@b.com'' ''Secur3!Pass'')))
       = 0"
    using auth_rate_limit_window [where w = five_used and now = 999
        and h = "credentials ''a@b.com'' ''Secur3!Pass''"
        and e = "\<lparr>rvalue = RCounter 5, rexpires = Some 1000\<rparr>" and n = 5
        and cfg = cfg0 and vd = vd0 and sid = "''s9''", THEN conjunct2, THEN conjunct1] five
    by (simp add: ip) (simp add: five_used_def base_world_def)
  have 3: "fst (authRateLimit 999 (five_used\<lparr>redis_client := False\<rparr>)
             (incoming (credentials ''a@b.com'' ''guess'')))
       = Next (incoming (credentials ''a@b.com'' ''guess''))"
    using auth_rate_limit_window [where w = "five_used\<lparr>redis_client := False\<rparr>" and now = 999
        and req = "incoming (credentials ''a@b.com'' ''guess'')",
        THEN conjunct2, THEN conjunct2]
    by simp
  have 4: "fst (authRateLimit 999 (five_used\<lparr>faults := [True]\<rparr>)
             (incoming (credentials ''a@b.com'' ''guess'')))
       = Next (incoming (credentials ''a@b.com'' ''guess''))"
    using auth_rate_limit_window [where w = "five_used\<lparr>faults := [True]\<rparr>" and now = 999
        and req = "incoming (credentials ''a@b.com'' ''guess'')",
        THEN conjunct2, THEN conjunct2]
    by simp
  from 1 2 3 4 show ?thesis by blast
qed

subsection \<open>Sector performance\<close>

lemma quiet_getCache:
  "faults w = [] \<Longrightarrow>
     getCache now key w =
       (if redis_client w then map_option rvalue (redis_lookup now w key) else None, w)"
  by (simp add: getCache_def getClient_def redis_GET_def io_call_def)

lemma quiet_setCache:
  "faults w = [] \<Longrightarrow>
     setCache now key v ttl w =
       (if redis_client w
        then w\<lparr>redis := (redis w)(key \<mapsto> \<lparr>rvalue = v, rexpires = Some (now + ttl)\<rparr>)\<rparr>
        else w)"
  by (simp add: setCache_def getClient_def redis_SETEX_def io_call_def)

text \<open>What a quote fetch leaves behind: at most the cache entry of its own symbol.\<close>

lemma getStockQuote_after:
  assumes "faults w = []"
  shows "faults (snd (getStockQuote pv now s w)) = []
         \<and> redis_client (snd (getStockQuote pv now s w)) = redis_client w
         \<and> (\<forall>k. k \<noteq> ''market:quote:'' @ s \<longrightarrow>
               redis (snd (getStockQuote pv now s w)) k = redis w k)"
  using assms
  by (simp add: getStockQuote_def getMarketData_def setMarketData_def quiet_getCache
      quiet_setCache split: option.splits sum.splits)

text \<open>The outcome of a quote fetch depends on the cache entry of its symbol only.\<close>

lemma getStockQuote_cong:
  assumes "faults w = []" "faults w' = []" "redis_client w' = redis_client w"
    and "redis w' (''market:quote:'' @ s) = redis w (''market:quote:'' @ s)"
  shows "fst (getStockQuote pv now s w') = fst (getStockQuote pv now s w)"
  using assms
  by (simp add: getStockQuote_def getMarketData_def setMarketData_def quiet_getCache
      quiet_setCache redis_lookup_def split: option.splits sum.splits)

lemma update_fresh: "k \<notin> fst ` set al \<Longrightarrow> AList.update k v al = al @ [(k, v)]"
  by (induction al) auto

lemma sector_loop_entries:
  assumes "faults w = []" and "distinct (map fst etfs)" and "distinct (map snd etfs)"
    and "snd ` set etfs \<inter> fst ` set acc = {}"
  shows "fst (sector_loop pv now etfs acc w) =
           acc @ map (\<lambda>(etf, name). (name, entry_of (fst (getStockQuote pv now etf w)) etf name)) etfs"
  using assms
proof (induction etfs arbitrary: acc w)
  case Nil
  then show ?case by simp
next
  case (Cons x rest)
  obtain etf name where x: "x = (etf, name)" by (cases x)
  obtain r w' where q: "getStockQuote pv now etf w = (r, w')"
    by (cases "getStockQuote pv now etf w")
  have after: "faults w' = []" "redis_client w' = redis_client w"
    "\<And>k. k \<noteq> ''market:quote:'' @ etf \<Longrightarrow> redis w' k = redis w k"
    using getStockQuote_after [OF Cons.prems(1), of pv now etf] q by simp_all
  have fresh: "name \<notin> fst ` set acc" using Cons.prems(4) x by auto
  let ?acc' = "acc @ [(name, entry_of r etf name)]"
  have step: "sector_loop pv now (x # rest) acc w = sector_loop pv now rest ?acc' w'"
    using q x fresh by (cases r) (simp_all add: entry_of_def update_fresh)
  have same: "fst (getStockQuote pv now e w') = fst (getStockQuote pv now e w)"
    if "e \<in> fst ` set rest" for e
  proof -
    have "e \<noteq> etf" using that Cons.prems(2) x by auto
    then show ?thesis
      using after Cons.prems(1) by (intro getStockQuote_cong) simp_all
  qed
  have IH: "fst (sector_loop pv now rest ?acc' w') =
      ?acc' @ map (\<lambda>(etf, name). (name, entry_of (fst (getStockQuote pv now etf w')) etf name)) rest"
    using Cons.prems x after(1) by (intro Cons.IH) auto
  have "map (\<lambda>(etf, name). (name, entry_of (fst (getStockQuote pv now etf w')) etf name)) rest
      = map (\<lambda>(etf, name). (name, entry_of (fst (getStockQuote pv now etf w)) etf name)) rest"
    using same by (auto intro!: map_cong simp: rev_image_eqI)
  then show ?case using step IH q x by simp
qed

lemma sectorETFs_distinct:
  "distinct (map fst sectorETFs)" "distinct (map snd sectorETFs)" "length sectorETFs = 10"
  by (simp_all add: sectorETFs_def)

lemma getSectorPerformance_resolves: "\<exists>v. fst (getSectorPerformance pv now w) = Inr v"
  by (simp add: getSectorPerformance_def split: prod.splits option.splits)

text \<open>
  C8. When no aggregate is cached (and no cache call fails), \<^verbatim>\<open>getSectorPerformance\<close>
  returns one entry for each of the ten sector ETFs, in their order: the error marker
  with the message of the error where the quote fetch of the ETF throws, the entry made
  from the quote where it returns. In every world the call returns a value; it never
  throws.
\<close>

theorem sector_performance_partial_failure:
  assumes quiet: "faults w = []"
    and miss: "cache_hit (fst (getMarketData now ''sector_performance'' w)) = None"
  shows "fst (getSectorPerformance pv now w) =
           Inr (RSectors (map (\<lambda>(etf, name).
                   (name,
                    case fst (getStockQuote pv now etf w) of
                      Inl e \<Rightarrow> SectorError (message_of e)
                    | Inr q \<Rightarrow> SectorQuote etf name (price_of q) (change_of q)
                                 (changePercent_of q)))
                 sectorETFs))
         \<and> length sectorETFs = 10
         \<and> (\<forall>w'. \<exists>v. fst (getSectorPerformance pv now w') = Inr v)"
proof -
  have w1: "snd (getMarketData now ''sector_performance'' w) = w"
    using quiet by (simp add: getMarketData_def quiet_getCache)
  have loop: "fst (sector_loop pv now sectorETFs [] w) =
      map (\<lambda>(etf, name). (name, entry_of (fst (getStockQuote pv now etf w)) etf name)) sectorETFs"
    using sector_loop_entries [OF quiet sectorETFs_distinct(1,2), of "[]" pv now] by simp
  have "fst (getSectorPerformance pv now w) = Inr (RSectors (fst (sector_loop pv now sectorETFs [] w)))"
    using miss w1
    by (cases "getMarketData now ''sector_performance'' w")
       (simp add: getSectorPerformance_def split: prod.splits)
  then show ?thesis
    using loop getSectorPerformance_resolves sectorETFs_distinct(3)
    by (simp add: entry_of_def)
qed

lemma quotes_at_base:
  "fst (getStockQuote pv0 100 ''XLE'' base_world)
     = Inl (Error ''Failed to fetch quote for XLE: socket hang up'')"
  "s \<noteq> ''XLE'' \<Longrightarrow> fst (getStockQuote pv0 100 s base_world)
     = Inr (RQuote (quoteData 100 (flat_quote s)))"
  by (simp_all add: getStockQuote_def getMarketData_def setMarketData_def getCache_def
      getClient_def redis_GET_def io_call_def redis_lookup_def cache_hit_def pv0_def
      base_world_def)

theorem sector_performance_partial_failure_witness:
  "fst (getSectorPerformance pv0 100 base_world) =
     Inr (RSectors
       [(''Technology'', SectorQuote ''XLK'' ''Technology'' (Some 100) (Some 1) (Some (1 / 100))),
        (''Financials'', SectorQuote ''XLF'' ''Financials'' (Some 100) (Some 1) (Some (1 / 100))),
        (''Energy'', SectorError ''Failed to fetch quote for XLE: socket hang up''),
        (''Healthcare'', SectorQuote ''XLV'' ''Healthcare'' (Some 100) (Some 1) (Some (1 / 100))),
        (''Industrials'', SectorQuote ''XLI'' ''Industrials'' (Some 100) (Some 1) (Some (1 / 100))),
        (''Consumer Staples'',
           SectorQuote ''XLP'' ''Consumer Staples'' (Some 100) (Some 1) (Some (1 / 100))),
        (''Consumer Discretionary'',
           SectorQuote ''XLY'' ''Consumer Discretionary'' (Some 100) (Some 1) (Some (1 / 100))),
        (''Utilities'', SectorQuote ''XLU'' ''Utilities'' (Some 100) (Some 1) (Some (1 / 100))),
        (''Materials'', SectorQuote ''XLB'' ''Materials'' (Some 100) (Some 1) (Some (1 / 100))),
        (''Real Estate'', SectorQuote ''XLRE'' ''Real Estate'' (Some 100) (Some 1) (Some (1 / 100)))])"
proof -
  have quiet: "faults base_world = []" by (simp add: base_world_def)
  have miss: "cache_hit (fst (getMarketData 100 ''sector_performance'' base_world)) = None"
    by (simp add: getMarketData_def getCache_def getClient_def redis_GET_def io_call_def
        redis_lookup_def cache_hit_def base_world_def)
  from sector_performance_partial_failure [OF quiet miss, of pv0, THEN conjunct1]
  show ?thesis
    by (simp add: sectorETFs_def quotes_at_base quoteData_def flat_quote_def)
qed

subsection \<open>Persistence of historical bars\<close>




































lemmas store_eval =
  getStockData_def storeStockData_def checkout_def release_def store_transaction_def
  client_query_def getCompanyInfo_def companyInfo_def js_or_def priceQuery_def
  pool_connect_def getMarketData_def setMarketData_def getCache_def setCache_def
  getClient_def redis_GET_def redis_SETEX_def io_call_def redis_lookup_def cache_hit_def
  transform_def rt0_def read_digits_def digit_value_def period1_def getPeriodInDays_def
  js_get_def periodMap_def too_long_def not_integer_def is_infinity_def


lemma stored_when_healthy:
  "tables (snd (getStockData rt0 pv0 100 ''AAPL'' ''1y'' ''1d'' base_world)) = apple_stored"
  "pooled_txn (snd (getStockData rt0 pv0 100 ''AAPL'' ''1y'' ''1d'' base_world)) = None"
  by (simp_all add: store_eval pv0_def base_world_def no_tables_def apple_info_def raw1_def
      raw2_def apple_stored_def)


text \<open>
  The COMMIT fails, and the ROLLBACK after it returns or fails too: the tables are as
  they were; after a failed ROLLBACK the client lies in the pool with the transaction
  open. A failure scheduled after the COMMIT has no effect on the stored batch.
\<close>

lemma later_faults:
  "tables (snd (getStockData rt0 pv0 100 ''AAPL'' ''1y'' ''1d''
     (base_world\<lparr>faults := [False, False, False, False, False, False, False, False, False, True]\<rparr>)))
     = no_tables"
  "pooled_txn (snd (getStockData rt0 pv0 100 ''AAPL'' ''1y'' ''1d''
     (base_world\<lparr>faults := [False, False, False, False, False, False, False, False, False, True]\<rparr>)))
     = None"
  "tables (snd (getStockData rt0 pv0 100 ''AAPL'' ''1y'' ''1d''
     (base_world\<lparr>faults := [False, False, False, False, False, False, False, False, False, True, True]\<rparr>)))
     = no_tables"
  "pooled_txn (snd (getStockData rt0 pv0 100 ''AAPL'' ''1y'' ''1d''
     (base_world\<lparr>faults := [False, False, False, False, False, False, False, False, False, True, True]\<rparr>)))
     = Some apple_stored"
  "tables (snd (getStockData rt0 pv0 100 ''AAPL'' ''1y'' ''1d''
     (base_world\<lparr>faults := [False, False, False, False, False, False, False, False, False, False, True]\<rparr>)))
     = apple_stored"
  "faults (snd (getStockData rt0 pv0 100 ''AAPL'' ''1y'' ''1d''
     (base_world\<lparr>faults := [False, False, False, False, False, False, False, False, False, False, True]\<rparr>)))
     = [True]"
  by (simp_all add: store_eval pv0_def base_world_def no_tables_def apple_info_def raw1_def
      raw2_def apple_stored_def)



end
